theory Spec2Isabelle
  imports Complex_Main
begin

section \<open>JavaScript values\<close>

text \<open>
  The front end handles parsed JSON and form values. A value is one of the JavaScript
  primitives, an array, or a plain object given by its own enumerable properties in
  enumeration order (keys distinct). Strings are well-formed Unicode text given by its
  UTF-8 bytes. A number is NaN or a finite number given by its exact rational value; the
  infinities and negative zero are not modelled.
\<close>

datatype jsnum = NaN | Fin rat

datatype jsval =
    Undefined
  | Null
  | Bool bool
  | Num jsnum
  | Str string
  | Arr "jsval list"
  | Obj "(string \<times> jsval) list"

text \<open>
  A thrown value, by the constructor of the exception and its \<open>message\<close>.
\<close>

datatype js_error = TypeError string | SyntaxError string | Error string

fun message :: "js_error \<Rightarrow> string" where
  "message (TypeError m) = m"
| "message (SyntaxError m) = m"
| "message (Error m) = m"

text \<open>
  Three operations of the language are not part of this repository and are taken as
  parameters: reading a string as a number (the argument of \<open>Number\<close> when it is a
  string), printing a number that is not an integer of magnitude at most \<open>2^53\<close>
  (the shortest digits that read back as the same number), and the product of two
  numbers, which IEEE-754 multiplication rounds.
\<close>

record js_runtime =
  StringToNumber :: "string \<Rightarrow> jsnum"
  FractionToString :: "rat \<Rightarrow> string"
  Multiply :: "rat \<Rightarrow> rat \<Rightarrow> jsnum"

fun truthy :: "jsval \<Rightarrow> bool" where
  "truthy Undefined = False"
| "truthy Null = False"
| "truthy (Bool b) = b"
| "truthy (Num NaN) = False"
| "truthy (Num (Fin x)) = (x \<noteq> 0)"
| "truthy (Str s) = (s \<noteq> [])"
| "truthy (Arr xs) = True"
| "truthy (Obj kvs) = True"

fun is_nullish :: "jsval \<Rightarrow> bool" where
  "is_nullish Undefined = True"
| "is_nullish Null = True"
| "is_nullish v = False"

fun digit_char :: "nat \<Rightarrow> char" where
  "digit_char n = char_of (48 + n)"

fun show_nat :: "nat \<Rightarrow> string" where
  "show_nat n = (if n < 10 then [digit_char n] else show_nat (n div 10) @ [digit_char (n mod 10)])"

declare show_nat.simps [simp del]

fun join :: "'a list \<Rightarrow> 'a list list \<Rightarrow> 'a list" where
  "join sep [] = []"
| "join sep [x] = x"
| "join sep (x # y # ys) = x @ sep @ join sep (y # ys)"

definition is_integer :: "rat \<Rightarrow> bool" where
  "is_integer x = (x = of_int \<lfloor>x\<rfloor>)"

text \<open>
  \<open>Number::toString\<close>: an integer of magnitude at most \<open>2^53\<close> prints its decimal
  digits; every other number prints as the runtime says.
\<close>

fun NumberToString :: "js_runtime \<Rightarrow> jsnum \<Rightarrow> string" where
  "NumberToString rt NaN = ''NaN''"
| "NumberToString rt (Fin x) =
     (if is_integer x \<and> \<bar>x\<bar> \<le> 2 ^ 53
      then (if x < 0 then ''-'' else []) @ show_nat (nat \<lfloor>\<bar>x\<bar>\<rfloor>)
      else FractionToString rt x)"

text \<open>
  \<open>ToString\<close>. An array prints as \<open>Array.prototype.join\<close> does, with \<open>null\<close> and
  \<open>undefined\<close> elements printed as the empty string.
\<close>

fun ToString :: "js_runtime \<Rightarrow> jsval \<Rightarrow> string" where
  "ToString rt Undefined = ''undefined''"
| "ToString rt Null = ''null''"
| "ToString rt (Bool b) = (if b then ''true'' else ''false'')"
| "ToString rt (Num n) = NumberToString rt n"
| "ToString rt (Str s) = s"
| "ToString rt (Arr xs) =
     join '','' (map (\<lambda>x. if is_nullish x then [] else ToString rt x) xs)"
| "ToString rt (Obj kvs) = ''[object Object]''"

fun ToNumber :: "js_runtime \<Rightarrow> jsval \<Rightarrow> jsnum" where
  "ToNumber rt Undefined = NaN"
| "ToNumber rt Null = Fin 0"
| "ToNumber rt (Bool b) = Fin (if b then 1 else 0)"
| "ToNumber rt (Num n) = n"
| "ToNumber rt (Str s) = StringToNumber rt s"
| "ToNumber rt (Arr xs) = StringToNumber rt (ToString rt (Arr xs))"
| "ToNumber rt (Obj kvs) = StringToNumber rt (ToString rt (Obj kvs))"

text \<open>
  \<open>a > n\<close> for a number \<open>n\<close>: the left operand is converted to a number, and a
  comparison with NaN is false.
\<close>

fun js_gt :: "js_runtime \<Rightarrow> jsval \<Rightarrow> rat \<Rightarrow> bool" where
  "js_gt rt a n = (case ToNumber rt a of NaN \<Rightarrow> False | Fin x \<Rightarrow> n < x)"

text \<open>\<open>a * n\<close> for a number \<open>n\<close>: the left operand is converted to a number.\<close>

fun js_times :: "js_runtime \<Rightarrow> jsval \<Rightarrow> rat \<Rightarrow> jsnum" where
  "js_times rt a n = (case ToNumber rt a of NaN \<Rightarrow> NaN | Fin x \<Rightarrow> Multiply rt x n)"

text \<open>
  \<open>Number.prototype.toFixed(d)\<close>: the nearest multiple of \<open>10^-d\<close>, the larger one at
  a tie, after the sign has been taken off; from \<open>10^21\<close> on the number prints as
  \<open>ToString\<close> does.
\<close>

fun pad_zeros :: "nat \<Rightarrow> string \<Rightarrow> string" where
  "pad_zeros k s = replicate (k - length s) CHR ''0'' @ s"

fun toFixed :: "js_runtime \<Rightarrow> nat \<Rightarrow> jsnum \<Rightarrow> string" where
  "toFixed rt d NaN = ''NaN''"
| "toFixed rt d (Fin x) =
     (if 10 ^ 21 \<le> \<bar>x\<bar> then NumberToString rt (Fin x)
      else
        let n = nat \<lfloor>\<bar>x\<bar> * 10 ^ d + 1 / 2\<rfloor>;
            m = (if d = 0 then show_nat n else pad_zeros (d + 1) (show_nat n));
            k = length m - d
        in (if x < 0 then ''-'' else [])
           @ (if d = 0 then m else take k m @ ''.'' @ drop k m))"

text \<open>
  The UTF-16 code units of a string, which are what JavaScript counts and indexes. The
  bytes are grouped into characters (a byte \<open>10xxxxxx\<close> continues a character); a
  character of up to three bytes is one code unit, and a character of four bytes, outside
  the Basic Multilingual Plane, is the two halves of its surrogate pair. A half is not
  well-formed text: it is held here by the three bytes of the same encoding scheme, and
  only an element of \<open>Object.entries\<close> of such a string is one.
\<close>

definition is_continuation :: "char \<Rightarrow> bool" where
  "is_continuation c = ((of_char c :: nat) div 64 = 2)"

function utf8_chars :: "string \<Rightarrow> string list" where
  "utf8_chars [] = []"
| "utf8_chars (c # cs) =
     (c # takeWhile is_continuation cs) # utf8_chars (dropWhile is_continuation cs)"
  by pat_completeness auto
termination
  by (relation "measure length") (auto simp: le_imp_less_Suc length_dropWhile_le)

definition three_bytes :: "nat \<Rightarrow> string" where
  "three_bytes u = [char_of (224 + u div 4096), char_of (128 + (u div 64) mod 64), char_of (128 + u mod 64)]"

definition surrogate_halves :: "string \<Rightarrow> string list" where
  "surrogate_halves ch =
     (let b = map (of_char :: char \<Rightarrow> nat) ch;
          cp = (b ! 0 mod 8) * 262144 + (b ! 1 mod 64) * 4096 + (b ! 2 mod 64) * 64 + b ! 3 mod 64;
          v = cp - 65536
      in [three_bytes (55296 + v div 1024), three_bytes (56320 + v mod 1024)])"

definition code_units :: "string \<Rightarrow> string list" where
  "code_units s =
     concat (map (\<lambda>ch. if length ch = 4 then surrogate_halves ch else [ch]) (utf8_chars s))"

text \<open>
  Property read \<open>o.k\<close> for the keys the front end reads. On \<open>null\<close> and
  \<open>undefined\<close> it throws; on an array or string only \<open>length\<close> is there; on
  any other primitive the result is \<open>undefined\<close>.
\<close>

fun get_prop :: "jsval \<Rightarrow> string \<Rightarrow> js_error + jsval" where
  "get_prop Undefined k =
     Inl (TypeError (''Cannot read properties of undefined (reading '' @ [CHR 0x27] @ k @ [CHR 0x27] @ '')''))"
| "get_prop Null k =
     Inl (TypeError (''Cannot read properties of null (reading '' @ [CHR 0x27] @ k @ [CHR 0x27] @ '')''))"
| "get_prop (Obj kvs) k = Inr (case map_of kvs k of None \<Rightarrow> Undefined | Some v \<Rightarrow> v)"
| "get_prop (Arr xs) k = Inr (if k = ''length'' then Num (Fin (of_nat (length xs))) else Undefined)"
| "get_prop (Str s) k =
     Inr (if k = ''length'' then Num (Fin (of_nat (length (code_units s)))) else Undefined)"
| "get_prop v k = Inr Undefined"

text \<open>\<open>Object.entries\<close>, and \<open>Object.keys(v).length\<close>.\<close>

fun indexed :: "nat \<Rightarrow> jsval list \<Rightarrow> (string \<times> jsval) list" where
  "indexed i [] = []"
| "indexed i (x # xs) = (show_nat i, x) # indexed (Suc i) xs"

fun Object_entries :: "jsval \<Rightarrow> js_error + (string \<times> jsval) list" where
  "Object_entries Undefined = Inl (TypeError ''Cannot convert undefined or null to object'')"
| "Object_entries Null = Inl (TypeError ''Cannot convert undefined or null to object'')"
| "Object_entries (Obj kvs) = Inr kvs"
| "Object_entries (Arr xs) = Inr (indexed 0 xs)"
| "Object_entries (Str s) = Inr (indexed 0 (map Str (code_units s)))"
| "Object_entries v = Inr []"

text \<open>Sequencing of computations that may throw.\<close>

fun bind :: "js_error + 'a \<Rightarrow> ('a \<Rightarrow> js_error + 'b) \<Rightarrow> js_error + 'b" where
  "bind (Inl e) f = Inl e"
| "bind (Inr x) f = f x"

fun mapM :: "('a \<Rightarrow> js_error + 'b) \<Rightarrow> 'a list \<Rightarrow> js_error + 'b list" where
  "mapM f [] = Inr []"
| "mapM f (x # xs) = bind (f x) (\<lambda>y. bind (mapM f xs) (\<lambda>ys. Inr (y # ys)))"

section \<open>api.js\<close>

definition API_BASE_URL :: string where
  "API_BASE_URL = ''/api/v1''"

definition hex_digit :: "nat \<Rightarrow> char" where
  "hex_digit n = ''0123456789ABCDEF'' ! n"

definition percent_encode :: "char \<Rightarrow> string" where
  "percent_encode c = [CHR ''%'', hex_digit (of_char c div 16), hex_digit (of_char c mod 16)]"

definition alphanumeric :: "char \<Rightarrow> bool" where
  "alphanumeric c =
     (c \<in> set ''ABCDEFGHIJKLMNOPQRSTUVWXYZabcdefghijklmnopqrstuvwxyz0123456789'')"

text \<open>
  \<open>encodeURIComponent\<close> on the UTF-8 bytes of the string: the unreserved characters
  stay, every other byte is percent-encoded.
\<close>

definition uri_unreserved :: "char \<Rightarrow> bool" where
  "uri_unreserved c = (alphanumeric c \<or> c \<in> set ''-_.!~*'' \<or> c = CHR 0x27 \<or> c \<in> set ''()'')"

definition encodeURIComponent :: "string \<Rightarrow> string" where
  "encodeURIComponent s = concat (map (\<lambda>c. if uri_unreserved c then [c] else percent_encode c) s)"

text \<open>
  \<^verbatim>\<open>const buildQueryString = (params = {}) =>
  Object.entries(params)
    .filter(([_, v]) => v !== undefined && v !== null && v !== "")
    .map(([k, v]) => `${encodeURIComponent(k)}=${encodeURIComponent(v)}`)
    .join("&");\<close>
\<close>

definition kept :: "string \<times> jsval \<Rightarrow> bool" where
  "kept e = (case e of (k, v) \<Rightarrow> v \<noteq> Undefined \<and> v \<noteq> Null \<and> v \<noteq> Str [])"

definition query_pair :: "js_runtime \<Rightarrow> string \<times> jsval \<Rightarrow> string" where
  "query_pair rt e =
     (case e of (k, v) \<Rightarrow> encodeURIComponent k @ ''='' @ encodeURIComponent (ToString rt v))"

definition buildQueryString :: "js_runtime \<Rightarrow> jsval \<Rightarrow> js_error + string" where
  "buildQueryString rt params =
     bind (Object_entries (if params = Undefined then Obj [] else params))
       (\<lambda>es. Inr (join ''&'' (map (query_pair rt) (filter kept es))))"

text \<open>
  The URL requested by \<open>getClimateData\<close>, \<open>getClimateSummary\<close> and
  \<open>getClimateTrends\<close>, for the resource \<open>/climate\<close>, \<open>/summary\<close> or \<open>/trends\<close>.
\<close>

definition request_url :: "js_runtime \<Rightarrow> string \<Rightarrow> jsval \<Rightarrow> js_error + string" where
  "request_url rt resource filters =
     bind (buildQueryString rt filters)
       (\<lambda>query. Inr (API_BASE_URL @ resource @ (if query \<noteq> [] then ''?'' @ query else [])))"

section \<open>App.jsx\<close>

text \<open>
  The filter set held by \<open>App\<close> and \<open>Filters\<close>. Every field is a string: the
  initial state gives \<open>''\<close> (and \<open>'raw'\<close>), and every later value is the \<open>value\<close> of a
  form control.
\<close>

record filter_set =
  locationId :: string
  startDate :: string
  endDate :: string
  metric :: string
  qualityThreshold :: string
  analysisType :: string

text \<open>
  The state of \<open>App\<close> that \<open>fetchData\<close> and the rendering use (\<open>locations\<close> and
  \<open>metrics\<close> are never set by \<open>App\<close>).
\<close>

record app_state =
  climateData :: jsval
  trendData :: jsval
  summaryData :: jsval
  filters :: filter_set
  loading :: bool
  error :: jsval

definition initial_filters :: filter_set where
  "initial_filters =
     \<lparr>locationId = [], startDate = [], endDate = [], metric = [], qualityThreshold = [],
      analysisType = ''raw''\<rparr>"

definition initial_state :: app_state where
  "initial_state =
     \<lparr>climateData = Arr [], trendData = Null, summaryData = Null, filters = initial_filters,
      loading = False, error = Null\<rparr>"

text \<open>
  What \<open>fetch\<close> gives for a URL: a rejection, or a response whose \<open>json()\<close> gives the
  parsed body or rejects.
\<close>

record response =
  ok :: bool
  status :: nat
  statusText :: string
  json :: "js_error + jsval"

type_synonym network = "string \<Rightarrow> js_error + response"

text \<open>
  \<open>URLSearchParams.toString\<close>: the \<open>application/x-www-form-urlencoded\<close> serialiser.
\<close>

definition urlencoded_byte :: "char \<Rightarrow> string" where
  "urlencoded_byte c =
     (if alphanumeric c \<or> c \<in> set ''*-._'' then [c]
      else if c = CHR '' '' then ''+''
      else percent_encode c)"

definition urlencoded :: "string \<Rightarrow> string" where
  "urlencoded s = concat (map urlencoded_byte s)"

definition URLSearchParams_toString :: "(string \<times> string) list \<Rightarrow> string" where
  "URLSearchParams_toString ps =
     join ''&'' (map (\<lambda>(k, v). urlencoded k @ ''='' @ urlencoded v) ps)"

text \<open>The object spread in \<open>new URLSearchParams({...})\<close>: a field is there when truthy.\<close>

definition queryParams :: "filter_set \<Rightarrow> (string \<times> string) list" where
  "queryParams appliedFilters =
     (if locationId appliedFilters \<noteq> [] then [(''location_id'', locationId appliedFilters)] else [])
     @ (if startDate appliedFilters \<noteq> [] then [(''start_date'', startDate appliedFilters)] else [])
     @ (if endDate appliedFilters \<noteq> [] then [(''end_date'', endDate appliedFilters)] else [])
     @ (if metric appliedFilters \<noteq> [] then [(''metric'', metric appliedFilters)] else [])
     @ (if qualityThreshold appliedFilters \<noteq> []
        then [(''quality_threshold'', qualityThreshold appliedFilters)] else [])"

definition endpoint :: "filter_set \<Rightarrow> string" where
  "endpoint appliedFilters =
     (if analysisType appliedFilters = ''trends'' then ''/api/v1/trends''
      else if analysisType appliedFilters = ''weighted'' then ''/api/v1/summary''
      else ''/api/v1/climate'')"

definition fetch_url :: "filter_set \<Rightarrow> string" where
  "fetch_url appliedFilters =
     endpoint appliedFilters @ ''?'' @ URLSearchParams_toString (queryParams appliedFilters)"

fun is_array :: "jsval \<Rightarrow> bool" where
  "is_array (Arr xs) = True"
| "is_array v = False"

fun typeof_object :: "jsval \<Rightarrow> bool" where
  "typeof_object Null = True"
| "typeof_object (Arr xs) = True"
| "typeof_object (Obj kvs) = True"
| "typeof_object v = False"

fun keys_length :: "jsval \<Rightarrow> nat" where
  "keys_length (Arr xs) = length xs"
| "keys_length (Obj kvs) = length kvs"
| "keys_length (Str s) = length (code_units s)"
| "keys_length v = 0"

text \<open>
  \<^verbatim>\<open>!data.data || (Array.isArray(data.data) && data.data.length === 0)
  || (typeof data.data === 'object' && Object.keys(data.data).length === 0)\<close>
\<close>

definition no_payload :: "jsval \<Rightarrow> bool" where
  "no_payload d =
     (\<not> truthy d \<or> (is_array d \<and> keys_length d = 0) \<or> (typeof_object d \<and> keys_length d = 0))"

definition clear_results :: "jsval \<Rightarrow> app_state \<Rightarrow> app_state" where
  "clear_results msg s = s\<lparr>error := msg, trendData := Null, summaryData := Null, climateData := Arr []\<rparr>"

definition store_results :: "filter_set \<Rightarrow> jsval \<Rightarrow> app_state \<Rightarrow> app_state" where
  "store_results appliedFilters d s =
     (if analysisType appliedFilters = ''trends''
      then s\<lparr>trendData := d, summaryData := Null, climateData := Arr []\<rparr>
      else if analysisType appliedFilters = ''weighted''
      then s\<lparr>summaryData := d, trendData := Null, climateData := Arr []\<rparr>
      else s\<lparr>climateData := d, trendData := Null, summaryData := Null\<rparr>)"

text \<open>
  \<open>fetchData\<close>: the body of the \<open>try\<close> gives the state it leaves, or the thrown
  value for the \<open>catch\<close>; the \<open>finally\<close> runs on every path, also after the early
  \<open>return\<close>.
\<close>

definition fetchData_try :: "network \<Rightarrow> filter_set \<Rightarrow> app_state \<Rightarrow> js_error + app_state" where
  "fetchData_try fetch appliedFilters s =
     bind (fetch (fetch_url appliedFilters)) (\<lambda>response.
       if \<not> ok response
       then Inl (Error (''API error: '' @ show_nat (status response) @ '' '' @ statusText response))
       else bind (json response) (\<lambda>data.
         if \<not> truthy data
         then Inr ((clear_results (Str ''No data available for the selected filters.'') s)\<lparr>loading := False\<rparr>)
         else bind (get_prop data ''data'') (\<lambda>d.
           if no_payload d
           then Inr ((clear_results (Str ''No data available for the selected filters.'') s)\<lparr>loading := False\<rparr>)
           else Inr (store_results appliedFilters d s))))"

definition fetchData :: "network \<Rightarrow> filter_set \<Rightarrow> app_state \<Rightarrow> app_state" where
  "fetchData fetch appliedFilters s0 =
     (let s = s0\<lparr>loading := True, error := Null\<rparr>;
          s' = (case fetchData_try fetch appliedFilters s of
                  Inr t \<Rightarrow> t
                | Inl e \<Rightarrow>
                    clear_results (Str (if message e \<noteq> [] then message e else ''Error fetching data.'')) s)
      in s'\<lparr>loading := False\<rparr>)"

definition handleApplyFilters :: "network \<Rightarrow> filter_set \<Rightarrow> app_state \<Rightarrow> app_state" where
  "handleApplyFilters fetch newFilters s = fetchData fetch newFilters (s\<lparr>filters := newFilters\<rparr>)"

section \<open>TrendAnalysis.jsx\<close>

text \<open>
  A component is modelled by the element tree it returns, reduced to the content that
  depends on its props, or by the exception that its rendering throws. The operand that
  \<open>a && <div/>\<close> evaluates to is \<open>Falsy a\<close> when \<open>a\<close> is falsy (for \<open>false\<close>,
  \<open>null\<close>, \<open>undefined\<close> and \<open>''\<close> nothing is displayed) and the element otherwise.
\<close>

datatype 'a shown = Falsy jsval | Shown 'a

definition to_lower_char :: "char \<Rightarrow> char" where
  "to_lower_char c =
     (let n = (of_char c :: nat) in if 65 \<le> n \<and> n \<le> 90 then char_of (n + 32) else c)"

text \<open>
  \<open>toLowerCase\<close> on the ASCII letters. No character outside ASCII lower-cases to a
  letter of the three words compared below.
\<close>

definition toLowerCase :: "string \<Rightarrow> string" where
  "toLowerCase s = map to_lower_char s"

fun getTrendIcon :: "jsval \<Rightarrow> string option" where
  "getTrendIcon (Str s) =
     (if s = [] then None
      else if toLowerCase s = ''increasing'' then Some [CHR 0xE2, CHR 0x86, CHR 0x97, CHR 0xEF, CHR 0xB8, CHR 0x8F]
      else if toLowerCase s = ''decreasing'' then Some [CHR 0xE2, CHR 0x86, CHR 0x98, CHR 0xEF, CHR 0xB8, CHR 0x8F]
      else if toLowerCase s = ''stable'' then Some [CHR 0xE2, CHR 0x9E, CHR 0xA1, CHR 0xEF, CHR 0xB8, CHR 0x8F]
      else None)"
| "getTrendIcon v = None"

text \<open>One card of the trend overview: the props of its three \<open>TrendStat\<close> elements.\<close>

record trend_card =
  card_metric :: string
  direction_value :: jsval
  direction_icon :: "string option"
  rate_value :: string
  confidence_value :: string

definition overview_card :: "js_runtime \<Rightarrow> string \<times> jsval \<Rightarrow> js_error + trend_card" where
  "overview_card rt e =
     (case e of (name, analysis) \<Rightarrow>
        bind (get_prop analysis ''trend'') (\<lambda>trend.
        bind (get_prop trend ''direction'') (\<lambda>direction.
        bind (get_prop trend ''rate'') (\<lambda>rate.
        bind (get_prop trend ''unit'') (\<lambda>unit.
        bind (get_prop trend ''confidence'') (\<lambda>confidence.
          Inr \<lparr>card_metric = name,
               direction_value = (if truthy direction then direction else Str ''N/A''),
               direction_icon = getTrendIcon direction,
               rate_value =
                 (if rate \<noteq> Null \<and> truthy unit
                  then toFixed rt 2 (ToNumber rt rate) @ '' '' @ ToString rt unit @ ''/month''
                  else ''N/A''),
               confidence_value =
                 (if confidence \<noteq> Null
                  then toFixed rt 1 (js_times rt confidence 100) @ ''%''
                  else ''N/A'')\<rparr>))))))"

text \<open>One line of the anomaly list.\<close>

record anomaly_row =
  anomaly_date :: jsval
  anomaly_value :: string
  anomaly_class :: string
  anomaly_deviation :: string

definition anomaly_line :: "js_runtime \<Rightarrow> jsval \<Rightarrow> js_error + anomaly_row" where
  "anomaly_line rt anomaly =
     bind (get_prop anomaly ''date'') (\<lambda>date.
     bind (get_prop anomaly ''value'') (\<lambda>val.
     bind (get_prop anomaly ''deviation'') (\<lambda>deviation.
       Inr \<lparr>anomaly_date = date,
            anomaly_value = toFixed rt 2 (ToNumber rt val),
            anomaly_class =
              ''px-2 py-1 rounded text-xs ''
              @ (if js_gt rt deviation 3 then ''bg-red-100 text-red-800''
                 else ''bg-yellow-100 text-yellow-800''),
            anomaly_deviation =
              toFixed rt 2 (ToNumber rt deviation) @ [CHR '' '', CHR 0xCF, CHR 0x83]\<rparr>)))"

text \<open>\<open>analysis.anomalies.map(f)\<close>: only an array has the method.\<close>

fun array_map :: "(jsval \<Rightarrow> js_error + 'a) \<Rightarrow> jsval \<Rightarrow> js_error + 'a list" where
  "array_map f (Arr xs) = mapM f xs"
| "array_map f Undefined =
     Inl (TypeError (''Cannot read properties of undefined (reading '' @ [CHR 0x27] @ ''map'' @ [CHR 0x27] @ '')''))"
| "array_map f Null =
     Inl (TypeError (''Cannot read properties of null (reading '' @ [CHR 0x27] @ ''map'' @ [CHR 0x27] @ '')''))"
| "array_map f v = Inl (TypeError ''analysis.anomalies.map is not a function'')"

definition anomaly_block ::
    "js_runtime \<Rightarrow> string \<times> jsval \<Rightarrow> js_error + (string \<times> anomaly_row list) shown" where
  "anomaly_block rt e =
     (case e of (name, analysis) \<Rightarrow>
        bind (get_prop analysis ''anomalies'') (\<lambda>anomalies.
        bind (get_prop anomalies ''length'') (\<lambda>len.
          if js_gt rt len 0
          then bind (array_map (anomaly_line rt) anomalies) (\<lambda>rows. Inr (Shown (name, rows)))
          else Inr (Falsy (Bool False)))))"

text \<open>The seasonal block of one metric.\<close>

record season_row =
  season_label :: string
  season_avg :: string
  season_trend :: jsval

record season_block =
  season_metric :: string
  period_value :: jsval
  season_confidence :: string
  pattern_rows :: "season_row list"

definition pattern_row :: "js_runtime \<Rightarrow> string \<times> jsval \<Rightarrow> js_error + season_row" where
  "pattern_row rt e =
     (case e of (season, d) \<Rightarrow>
        bind (get_prop d ''avg'') (\<lambda>avg.
        bind (get_prop d ''trend'') (\<lambda>trend.
          Inr \<lparr>season_label = season,
               season_avg =
                 (if avg \<noteq> Null \<and> avg \<noteq> Undefined then toFixed rt 2 (ToNumber rt avg) else ''N/A''),
               season_trend = (if truthy trend then trend else Str ''N/A'')\<rparr>)))"

definition seasonal_block :: "js_runtime \<Rightarrow> string \<times> jsval \<Rightarrow> js_error + season_block shown" where
  "seasonal_block rt e =
     (case e of (name, analysis) \<Rightarrow>
        bind (get_prop analysis ''seasonality'') (\<lambda>seasonality.
        bind (get_prop seasonality ''detected'') (\<lambda>detected.
          if truthy detected
          then
            bind (get_prop seasonality ''period'') (\<lambda>period.
            bind (get_prop seasonality ''confidence'') (\<lambda>confidence.
            bind (get_prop seasonality ''pattern'') (\<lambda>pattern.
            bind (Object_entries pattern) (\<lambda>entries.
            bind (mapM (pattern_row rt) entries) (\<lambda>rows.
              Inr (Shown
                \<lparr>season_metric = name,
                 period_value = (if truthy period then period else Str ''N/A''),
                 season_confidence =
                   (if confidence \<noteq> Null
                    then toFixed rt 1 (js_times rt confidence 100) @ ''%''
                    else ''N/A''),
                 pattern_rows = rows\<rparr>))))))
          else Inr (Falsy detected))))"

datatype trend_view =
    Skeleton
  | Nothing
  | Panel "trend_card list" "(string \<times> anomaly_row list) shown list" "season_block shown list"

definition TrendAnalysis :: "js_runtime \<Rightarrow> jsval \<Rightarrow> bool \<Rightarrow> js_error + trend_view" where
  "TrendAnalysis rt data is_loading =
     (if is_loading then Inr Skeleton
      else if \<not> truthy data then Inr Nothing
      else
        bind (Object_entries data) (\<lambda>entries.
        bind (mapM (overview_card rt) entries) (\<lambda>cards.
        bind (mapM (anomaly_block rt) entries) (\<lambda>anomalies.
        bind (mapM (seasonal_block rt) entries) (\<lambda>seasons.
          Inr (Panel cards anomalies seasons))))))"

section \<open>SummaryTable.jsx\<close>

text \<open>\<^verbatim>\<open>const round2 = (v) => v === null || v === undefined ? '-' : Number(v).toFixed(2);\<close>\<close>

definition round2 :: "js_runtime \<Rightarrow> jsval \<Rightarrow> string" where
  "round2 rt v = (if v = Null \<or> v = Undefined then ''-'' else toFixed rt 2 (ToNumber rt v))"

datatype quality_cell = Dash | Badges "(string \<times> string) list"

record summary_row =
  row_metric :: string
  row_class :: string
  min_cell :: string
  max_cell :: string
  avg_cell :: string
  weighted_avg_cell :: string
  unit_cell :: jsval
  quality_badges :: quality_cell

definition badge :: "js_runtime \<Rightarrow> string \<times> jsval \<Rightarrow> string \<times> string" where
  "badge rt e =
     (case e of (q, v) \<Rightarrow>
        (''inline-block px-2 py-1 mr-1 rounded text-xs font-medium ''
         @ (if q = ''excellent'' then ''bg-green-100 text-green-700''
            else if q = ''good'' then ''bg-blue-100 text-blue-700''
            else if q = ''questionable'' then ''bg-yellow-100 text-yellow-700''
            else ''bg-red-100 text-red-700''),
         q @ '': '' @ toFixed rt 2 (js_times rt v 100) @ ''%''))"

definition table_row :: "js_runtime \<Rightarrow> nat \<times> string \<times> jsval \<Rightarrow> js_error + summary_row" where
  "table_row rt e =
     (case e of (idx, name, stats) \<Rightarrow>
        bind (get_prop stats ''min'') (\<lambda>mn.
        bind (get_prop stats ''max'') (\<lambda>mx.
        bind (get_prop stats ''avg'') (\<lambda>avg.
        bind (get_prop stats ''weighted_avg'') (\<lambda>wavg.
        bind (get_prop stats ''unit'') (\<lambda>unit.
        bind (get_prop stats ''quality_distribution'') (\<lambda>qd.
        bind (if truthy qd then Object_entries qd else Inr []) (\<lambda>qs.
          Inr \<lparr>row_metric = name,
               row_class = (if idx mod 2 = 0 then ''bg-gray-50'' else []),
               min_cell = round2 rt mn,
               max_cell = round2 rt mx,
               avg_cell = round2 rt avg,
               weighted_avg_cell = round2 rt wavg,
               unit_cell = (if is_nullish unit then Str ''-'' else unit),
               quality_badges = (if truthy qd then Badges (map (badge rt) qs) else Dash)\<rparr>))))))))"

text \<open>
  One value of a bar-chart dataset:
  \<^verbatim>\<open>Number((stats.quality_distribution?.excellent ?? 0).toFixed(2))\<close>.
\<close>

definition chart_value :: "js_runtime \<Rightarrow> string \<Rightarrow> string \<times> jsval \<Rightarrow> js_error + jsnum" where
  "chart_value rt grade e =
     (case e of (name, stats) \<Rightarrow>
        bind (get_prop stats ''quality_distribution'') (\<lambda>qd.
        bind (if is_nullish qd then Inr Undefined else get_prop qd grade) (\<lambda>v.
          case (if is_nullish v then Num (Fin 0) else v) of
            Num n \<Rightarrow> Inr (StringToNumber rt (toFixed rt 2 n))
          | _ \<Rightarrow> Inl (TypeError ''((intermediate value) ?? 0).toFixed is not a function''))))"

record bar_chart =
  chart_labels :: "string list"
  excellent_data :: "jsnum list"
  good_data :: "jsnum list"
  questionable_data :: "jsnum list"
  poor_data :: "jsnum list"

datatype summary_view =
    LoadingSummary
  | NoSummaryData
  | SummaryTableView "summary_row list" "bar_chart shown"

definition has_quality :: "string \<times> jsval \<Rightarrow> js_error + bool" where
  "has_quality e =
     (case e of (name, stats) \<Rightarrow>
        bind (get_prop stats ''quality_distribution'') (\<lambda>qd. Inr (truthy qd)))"

definition SummaryTable :: "js_runtime \<Rightarrow> jsval \<Rightarrow> bool \<Rightarrow> js_error + summary_view" where
  "SummaryTable rt data is_loading =
     (if is_loading then Inr LoadingSummary
      else if \<not> truthy data \<or> keys_length data = 0 then Inr NoSummaryData
      else
        bind (Object_entries data) (\<lambda>entries.
        bind (mapM has_quality entries) (\<lambda>flags.
        let metricsWithQuality = map fst (filter snd (zip entries flags)) in
        bind (mapM (table_row rt) (zip [0 ..< length entries] entries)) (\<lambda>rows.
          if metricsWithQuality \<noteq> []
          then
            bind (mapM (chart_value rt ''excellent'') metricsWithQuality) (\<lambda>ex.
            bind (mapM (chart_value rt ''good'') metricsWithQuality) (\<lambda>gd.
            bind (mapM (chart_value rt ''questionable'') metricsWithQuality) (\<lambda>qu.
            bind (mapM (chart_value rt ''poor'') metricsWithQuality) (\<lambda>po.
              Inr (SummaryTableView rows
                (Shown \<lparr>chart_labels = map fst metricsWithQuality, excellent_data = ex,
                        good_data = gd, questionable_data = qu, poor_data = po\<rparr>))))))
          else Inr (SummaryTableView rows (Falsy (Bool False)))))))"

section \<open>Filters.jsx\<close>

record select_option =
  opt_value :: string
  opt_label :: string

definition QUALITY_OPTIONS :: "select_option list" where
  "QUALITY_OPTIONS =
     [\<lparr>opt_value = [], opt_label = ''Any''\<rparr>,
      \<lparr>opt_value = ''excellent'', opt_label = ''Excellent''\<rparr>,
      \<lparr>opt_value = ''good'', opt_label = ''Good''\<rparr>,
      \<lparr>opt_value = ''poor'', opt_label = ''Poor''\<rparr>]"

definition ANALYSIS_TYPES :: "select_option list" where
  "ANALYSIS_TYPES =
     [\<lparr>opt_value = ''raw'', opt_label = ''Climate Data''\<rparr>,
      \<lparr>opt_value = ''weighted'', opt_label = ''Summary''\<rparr>,
      \<lparr>opt_value = ''trends'', opt_label = ''Trends''\<rparr>]"

text \<open>
  The \<open>option\<close> elements of the two \<open>select\<close> controls: one per entry, with the
  entry's \<open>value\<close>.
\<close>

definition quality_select_values :: "string list" where
  "quality_select_values = map opt_value QUALITY_OPTIONS"

definition analysis_select_values :: "string list" where
  "analysis_select_values = map opt_value ANALYSIS_TYPES"

section \<open>The rendering of App\<close>

datatype main_view =
    TrendMain trend_view
  | SummaryMain summary_view
  | ChartsMain jsval bool

record app_view =
  error_banner :: "jsval shown"
  main :: main_view
  quality_indicator_data :: jsval

definition App_render :: "js_runtime \<Rightarrow> app_state \<Rightarrow> js_error + app_view" where
  "App_render rt s =
     bind
       (if analysisType (filters s) = ''trends''
        then bind (TrendAnalysis rt (trendData s) (loading s)) (\<lambda>v. Inr (TrendMain v))
        else if analysisType (filters s) = ''weighted''
        then bind (SummaryTable rt (summaryData s) (loading s)) (\<lambda>v. Inr (SummaryMain v))
        else Inr (ChartsMain (climateData s) (loading s)))
       (\<lambda>m. Inr \<lparr>error_banner = (if truthy (error s) then Shown (error s) else Falsy (error s)),
                  main = m,
                  quality_indicator_data = climateData s\<rparr>)"

section \<open>The weighted summary of the analytics engine\<close>

text \<open>
  Modelled from the spec: the quality grades of the back end's \<open>utils/constants.py\<close>,
  which is not among the sources. The closed ordered set of the data model.
\<close>

datatype QualityGrade = excellent | good | questionable | poor

text \<open>Modelled from the spec: the grades of the closed set, from excellent to poor.\<close>

definition all_grades :: "QualityGrade list" where
  "all_grades = [excellent, good, questionable, poor]"

text \<open>
  Modelled from the spec: an observation of the data model, a day-resolution timestamp
  (year, month, day), a real value and a grade of the closed set.
\<close>

record Observation =
  timestamp :: "nat \<times> nat \<times> nat"
  obs_value :: real
  obs_quality :: QualityGrade

text \<open>
  Modelled from the spec: the weight table of the Quality Model, an injected read-only
  configuration. Each weight is in (0, 1] and the weights strictly decrease from
  excellent to poor.
\<close>

type_synonym weight_table = "QualityGrade \<Rightarrow> real"

definition valid_weights :: "weight_table \<Rightarrow> bool" where
  "valid_weights w =
     (0 < w poor \<and> w poor < w questionable \<and> w questionable < w good \<and> w good < w excellent
      \<and> w excellent \<le> 1)"

text \<open>Modelled from the spec: \<open>weight_of(grade)\<close>, the lookup in the table.\<close>

definition weight_of :: "weight_table \<Rightarrow> QualityGrade \<Rightarrow> real" where
  "weight_of w g = w g"

text \<open>Modelled from the spec: the error taxonomy of the engine, as far as the summary raises it.\<close>

datatype engine_error = EmptyInput | DivisionByZeroGuarded

text \<open>
  Modelled from the spec: the SummaryResult of the data model; \<open>quality_distribution\<close>
  maps a grade to its fraction of the total weight.
\<close>

record SummaryResult =
  min_value :: real
  max_value :: real
  mean :: real
  weighted_mean :: real
  result_unit :: string
  quality_distribution :: "QualityGrade \<Rightarrow> real"

text \<open>Modelled from the spec: the sum of the weights of all observations.\<close>

definition total_weight :: "weight_table \<Rightarrow> Observation list \<Rightarrow> real" where
  "total_weight w obs = sum_list (map (\<lambda>ob. weight_of w (obs_quality ob)) obs)"

text \<open>Modelled from the spec: the sum of the weights of the observations with grade \<open>g\<close>.\<close>

definition grade_weight :: "weight_table \<Rightarrow> QualityGrade \<Rightarrow> Observation list \<Rightarrow> real" where
  "grade_weight w g obs =
     sum_list (map (\<lambda>ob. weight_of w (obs_quality ob)) (filter (\<lambda>ob. obs_quality ob = g) obs))"

text \<open>
  Modelled from the spec: the Weighted Summary Calculator of the back end (section 4.2),
  which is not among the sources. It signals \<open>EmptyInput\<close> for an empty sequence, guards
  the division by the total weight, and otherwise gives the minimum, the maximum, the
  arithmetic mean, the weighted mean
  \<open>\<Sum>(value\<^sub>i \<sqdot> weight(quality\<^sub>i)) / \<Sum>(weight(quality\<^sub>i))\<close>
  and the weight-mass distribution of the grades.
\<close>

definition weighted_summary ::
    "weight_table \<Rightarrow> string \<Rightarrow> Observation list \<Rightarrow> engine_error + SummaryResult" where
  "weighted_summary w u obs =
     (if obs = [] then Inl EmptyInput
      else if total_weight w obs = 0 then Inl DivisionByZeroGuarded
      else
        Inr \<lparr>min_value = fold min (map obs_value (tl obs)) (obs_value (hd obs)),
             max_value = fold max (map obs_value (tl obs)) (obs_value (hd obs)),
             mean = sum_list (map obs_value obs) / real (length obs),
             weighted_mean =
               sum_list (map (\<lambda>ob. obs_value ob * weight_of w (obs_quality ob)) obs) / total_weight w obs,
             result_unit = u,
             quality_distribution = (\<lambda>g. grade_weight w g obs / total_weight w obs)\<rparr>)"

section \<open>Notions used to state the properties\<close>

text \<open>
  A runtime for the closed examples; none of them reads a string as a number, prints a
  number that is not a small integer, or multiplies.
\<close>

definition example_runtime :: js_runtime where
  "example_runtime =
     \<lparr>StringToNumber = (\<lambda>s. NaN), FractionToString = (\<lambda>x. ''NaN''),
      Multiply = (\<lambda>x y. Fin (x * y))\<rparr>"

text \<open>
  How a query string is read back: it is split at every \<open>&\<close>, and each part at its first
  \<open>=\<close> into a name and a value.
\<close>

fun split_on :: "char \<Rightarrow> string \<Rightarrow> string list" where
  "split_on c [] = [[]]"
| "split_on c (x # xs) =
     (if x = c then [] # split_on c xs else (x # hd (split_on c xs)) # tl (split_on c xs))"

definition name_value :: "string \<Rightarrow> string \<times> string" where
  "name_value part = (takeWhile (\<lambda>c. c \<noteq> CHR ''='') part, drop 1 (dropWhile (\<lambda>c. c \<noteq> CHR ''='') part))"

definition query_parameters :: "string \<Rightarrow> (string \<times> string) list" where
  "query_parameters q = (if q = [] then [] else map name_value (split_on CHR ''&'' q))"

text \<open>
  The trend-mode payload of one metric, in the shape the engine's interface gives it:
  \<open>{trend: {...}, anomalies: [{...}, ...], seasonality: {detected, ..., pattern: {season: {...}}}}\<close>,
  where the fields of \<open>trend\<close> may be null and \<open>pattern\<close> is only required when
  \<open>detected\<close> is true.
\<close>

fun is_object :: "jsval \<Rightarrow> bool" where
  "is_object (Obj kvs) = True"
| "is_object v = False"

definition field :: "jsval \<Rightarrow> string \<Rightarrow> jsval" where
  "field v k = (case get_prop v k of Inl e \<Rightarrow> Undefined | Inr x \<Rightarrow> x)"

definition trend_entry :: "jsval \<Rightarrow> bool" where
  "trend_entry a =
     (is_object a \<and> is_object (field a ''trend'')
      \<and> (case field a ''anomalies'' of Arr xs \<Rightarrow> list_all is_object xs | _ \<Rightarrow> False)
      \<and> is_object (field a ''seasonality'')
      \<and> (case field (field a ''seasonality'') ''detected'' of
            Bool b \<Rightarrow>
              \<not> b \<or> (case field (field a ''seasonality'') ''pattern'' of
                       Obj ps \<Rightarrow> list_all (\<lambda>p. is_object (snd p)) ps
                     | _ \<Rightarrow> False)
          | _ \<Rightarrow> False))"

text \<open>The scenario of the specification, and a weight table with its three weights.\<close>

definition scenario :: "Observation list" where
  "scenario =
     [\<lparr>timestamp = (2023, 1, 1), obs_value = 10, obs_quality = good\<rparr>,
      \<lparr>timestamp = (2023, 2, 1), obs_value = 12, obs_quality = excellent\<rparr>,
      \<lparr>timestamp = (2023, 3, 1), obs_value = 14, obs_quality = poor\<rparr>]"

fun scenario_weights :: weight_table where
  "scenario_weights excellent = 1"
| "scenario_weights good = 8 / 10"
| "scenario_weights questionable = 5 / 10"
| "scenario_weights poor = 3 / 10"

text \<open>
  The results that \<open>fetchData\<close> leaves for a filter set: at most the state of the
  requested analysis type holds data.
\<close>

definition settled :: "filter_set \<Rightarrow> app_state \<Rightarrow> bool" where
  "settled f s =
     ((analysisType f = ''trends'' \<longrightarrow> summaryData s = Null \<and> climateData s = Arr [])
      \<and> (analysisType f = ''weighted'' \<longrightarrow> trendData s = Null \<and> climateData s = Arr [])
      \<and> (analysisType f \<noteq> ''trends'' \<and> analysisType f \<noteq> ''weighted''
           \<longrightarrow> trendData s = Null \<and> summaryData s = Null))"

text \<open>A network that answers every request with status 200 and the given body.\<close>

definition example_fetch :: "jsval \<Rightarrow> network" where
  "example_fetch body url = Inr \<lparr>ok = True, status = 200, statusText = ''OK'', json = Inr body\<rparr>"

definition weighted_filters :: filter_set where
  "weighted_filters = initial_filters\<lparr>locationId := ''1'', analysisType := ''weighted''\<rparr>"

definition trends_filters :: filter_set where
  "trends_filters = initial_filters\<lparr>locationId := ''1'', analysisType := ''trends''\<rparr>"

text \<open>
  A trend-mode payload with one metric whose trend is unavailable, two anomalies and no
  seasonality.
\<close>

definition example_entries :: "(string \<times> jsval) list" where
  "example_entries =
     [(''temperature'',
       Obj [(''trend'', Obj [(''direction'', Null), (''rate'', Null), (''unit'', Str ''C''),
                             (''confidence'', Null)]),
            (''anomalies'',
               Arr [Obj [(''date'', Str ''2023-01-01''), (''value'', Num (Fin 40)),
                         (''deviation'', Num (Fin (7 / 2)))],
                    Obj [(''date'', Str ''2023-02-01''), (''value'', Num (Fin 30)),
                         (''deviation'', Num (Fin 3))]]),
            (''seasonality'', Obj [(''detected'', Bool False), (''period'', Null),
                                   (''confidence'', Null), (''pattern'', Null)])])]"

definition example_trends :: jsval where
  "example_trends = Obj example_entries"

text \<open>The values that are neither arrays nor objects.\<close>

fun is_primitive :: "jsval \<Rightarrow> bool" where
  "is_primitive (Arr xs) = False"
| "is_primitive (Obj kvs) = False"
| "is_primitive v = True"

text \<open>A filters object with a number, a string and three empty values.\<close>

definition example_params :: "(string \<times> jsval) list" where
  "example_params =
     [(''location_id'', Num (Fin 3)), (''metric'', Str ''air temp''), (''start_date'', Str []),
      (''end_date'', Null), (''page'', Undefined)]"

text \<open>A network that answers at one URL only and rejects every other request.\<close>

definition answer_only_at :: "string \<Rightarrow> jsval \<Rightarrow> network" where
  "answer_only_at u body url = (if url = u then example_fetch body url else Inl (TypeError ''Failed to fetch''))"

section \<open>Properties\<close>

subsection \<open>Computations that may throw\<close>

lemma bind_eq_Inr: "bind m f = Inr y \<longleftrightarrow> (\<exists>x. m = Inr x \<and> f x = Inr y)"
  by (cases m) simp_all

lemma get_prop_field: "\<not> is_nullish v \<Longrightarrow> get_prop v k = Inr (field v k)"
  by (cases v) (simp_all add: field_def)

lemma truthy_not_nullish: "truthy v \<Longrightarrow> \<not> is_nullish v"
  by (cases v) simp_all

lemma field_get_prop: "truthy v \<Longrightarrow> get_prop v k = Inr (field v k)"
  by (simp add: get_prop_field truthy_not_nullish)

subsection \<open>The quality filter\<close>

text \<open>
  Claim C1. The quality-threshold filter should offer every grade of the closed set
  excellent, good, questionable, poor besides its entry Any. The options of the select
  are the empty value, excellent, good and poor: the grade questionable is not among
  them.
\<close>

theorem quality_options_omit_questionable:
  "quality_select_values = [[], ''excellent'', ''good'', ''poor'']
   \<and> ''questionable'' \<notin> set quality_select_values"
  by (simp add: quality_select_values_def QUALITY_OPTIONS_def)

subsection \<open>The request of fetchData\<close>

lemma fetchData_try_cong:
  "fetch (fetch_url f) = fetch' (fetch_url f) \<Longrightarrow> fetchData_try fetch f s = fetchData_try fetch' f s"
  unfolding fetchData_try_def by (rule arg_cong2 [where f = bind]) simp_all

lemma fetchData_cong:
  "fetch (fetch_url f) = fetch' (fetch_url f) \<Longrightarrow> fetchData fetch f s = fetchData fetch' f s"
  unfolding fetchData_def by (simp only: fetchData_try_cong [of fetch f fetch'])

lemma fetch_url_cases:
  "fetch_url f =
     (if analysisType f = ''trends'' then ''/api/v1/trends''
      else if analysisType f = ''weighted'' then ''/api/v1/summary''
      else ''/api/v1/climate'') @ ''?'' @ URLSearchParams_toString (queryParams f)"
  by (simp only: fetch_url_def endpoint_def)

lemma analysis_values: "analysis_select_values = [''raw'', ''weighted'', ''trends'']"
  by (simp add: analysis_select_values_def ANALYSIS_TYPES_def)

lemma payload_truthy: "\<not> no_payload (field body ''data'') \<Longrightarrow> truthy body"
  by (cases body rule: truthy.cases) (simp_all add: no_payload_def field_def)

lemma fetchData_stores:
  assumes "fetch (fetch_url f) = Inr r" and "ok r" and "json r = Inr body"
    and "\<not> no_payload (field body ''data'')"
  shows "fetchData fetch f s =
           (store_results f (field body ''data'') (s\<lparr>loading := True, error := Null\<rparr>))\<lparr>loading := False\<rparr>"
  using assms payload_truthy [OF assms(4)]
  by (simp add: fetchData_def fetchData_try_def Let_def field_get_prop)

lemma fetchData_rejected:
  assumes "fetch (fetch_url f) = Inl e"
  shows "fetchData fetch f s =
           (clear_results (Str (if message e \<noteq> [] then message e else ''Error fetching data.''))
              (s\<lparr>loading := True, error := Null\<rparr>))\<lparr>loading := False\<rparr>"
  using assms by (simp add: fetchData_def fetchData_try_def Let_def)

lemma store_results_fields:
  "analysisType f = ''trends'' \<Longrightarrow> trendData (store_results f d s) = d"
  "analysisType f = ''weighted'' \<Longrightarrow> summaryData (store_results f d s) = d"
  "analysisType f \<noteq> ''trends'' \<Longrightarrow> analysisType f \<noteq> ''weighted'' \<Longrightarrow> climateData (store_results f d s) = d"
  by (simp_all add: store_results_def)

text \<open>
  Claim C8. For every applied filter set, \<open>fetchData\<close> requests one URL, whose endpoint
  is a function of \<open>analysisType\<close>: \<open>/api/v1/trends\<close> for \<open>trends\<close>,
  \<open>/api/v1/summary\<close> for \<open>weighted\<close> and \<open>/api/v1/climate\<close> for every other value.
  The outcome of \<open>fetchData\<close> depends on the network only through the answer to that
  URL, and it is that answer which \<open>fetchData\<close> uses: a successful answer at the
  endpoint of the analysis type, with a payload, is stored in the state of that analysis
  type, and a rejection at that URL becomes the error message. The analysis types offered
  by \<open>Filters\<close> are exactly \<open>trends\<close>, \<open>weighted\<close> and \<open>raw\<close>.
\<close>

theorem endpoint_by_analysis_type:
  "fetch_url f =
     (if analysisType f = ''trends'' then ''/api/v1/trends''
      else if analysisType f = ''weighted'' then ''/api/v1/summary''
      else ''/api/v1/climate'') @ ''?'' @ URLSearchParams_toString (queryParams f)
   \<and> (\<forall>fetch fetch' s. fetch (fetch_url f) = fetch' (fetch_url f)
          \<longrightarrow> fetchData fetch f s = fetchData fetch' f s)
   \<and> (\<forall>fetch s r body.
         analysisType f = ''trends''
         \<and> fetch (''/api/v1/trends?'' @ URLSearchParams_toString (queryParams f)) = Inr r
         \<and> ok r \<and> json r = Inr body \<and> \<not> no_payload (field body ''data'')
          \<longrightarrow> trendData (fetchData fetch f s) = field body ''data'')
   \<and> (\<forall>fetch s r body.
         analysisType f = ''weighted''
         \<and> fetch (''/api/v1/summary?'' @ URLSearchParams_toString (queryParams f)) = Inr r
         \<and> ok r \<and> json r = Inr body \<and> \<not> no_payload (field body ''data'')
          \<longrightarrow> summaryData (fetchData fetch f s) = field body ''data'')
   \<and> (\<forall>fetch s r body.
         analysisType f \<noteq> ''trends'' \<and> analysisType f \<noteq> ''weighted''
         \<and> fetch (''/api/v1/climate?'' @ URLSearchParams_toString (queryParams f)) = Inr r
         \<and> ok r \<and> json r = Inr body \<and> \<not> no_payload (field body ''data'')
          \<longrightarrow> climateData (fetchData fetch f s) = field body ''data'')
   \<and> (\<forall>fetch s e. fetch (fetch_url f) = Inl e
          \<longrightarrow> error (fetchData fetch f s)
                = Str (if message e \<noteq> [] then message e else ''Error fetching data.''))
   \<and> set analysis_select_values = {''trends'', ''weighted'', ''raw''}"
proof (intro conjI allI impI)
  show "fetch_url f =
     (if analysisType f = ''trends'' then ''/api/v1/trends''
      else if analysisType f = ''weighted'' then ''/api/v1/summary''
      else ''/api/v1/climate'') @ ''?'' @ URLSearchParams_toString (queryParams f)"
    by (rule fetch_url_cases)
next
  fix fetch fetch' :: network and s :: app_state
  assume "fetch (fetch_url f) = fetch' (fetch_url f)"
  then show "fetchData fetch f s = fetchData fetch' f s"
    by (rule fetchData_cong)
next
  fix fetch :: network and s :: app_state and r body
  assume a: "analysisType f = ''trends''
         \<and> fetch (''/api/v1/trends?'' @ URLSearchParams_toString (queryParams f)) = Inr r
         \<and> ok r \<and> json r = Inr body \<and> \<not> no_payload (field body ''data'')"
  then have u: "fetch (fetch_url f) = Inr r"
    by (simp add: fetch_url_cases)
  from a have "fetchData fetch f s =
           (store_results f (field body ''data'') (s\<lparr>loading := True, error := Null\<rparr>))\<lparr>loading := False\<rparr>"
    by (intro fetchData_stores [where fetch = fetch and f = f and r = r, OF u]) simp_all
  with a show "trendData (fetchData fetch f s) = field body ''data''"
    by (simp add: store_results_fields)
next
  fix fetch :: network and s :: app_state and r body
  assume a: "analysisType f = ''weighted''
         \<and> fetch (''/api/v1/summary?'' @ URLSearchParams_toString (queryParams f)) = Inr r
         \<and> ok r \<and> json r = Inr body \<and> \<not> no_payload (field body ''data'')"
  then have u: "fetch (fetch_url f) = Inr r"
    by (simp add: fetch_url_cases)
  from a have "fetchData fetch f s =
           (store_results f (field body ''data'') (s\<lparr>loading := True, error := Null\<rparr>))\<lparr>loading := False\<rparr>"
    by (intro fetchData_stores [where fetch = fetch and f = f and r = r, OF u]) simp_all
  with a show "summaryData (fetchData fetch f s) = field body ''data''"
    by (simp add: store_results_fields)
next
  fix fetch :: network and s :: app_state and r body
  assume a: "analysisType f \<noteq> ''trends'' \<and> analysisType f \<noteq> ''weighted''
         \<and> fetch (''/api/v1/climate?'' @ URLSearchParams_toString (queryParams f)) = Inr r
         \<and> ok r \<and> json r = Inr body \<and> \<not> no_payload (field body ''data'')"
  then have u: "fetch (fetch_url f) = Inr r"
    by (simp add: fetch_url_cases)
  from a have "fetchData fetch f s =
           (store_results f (field body ''data'') (s\<lparr>loading := True, error := Null\<rparr>))\<lparr>loading := False\<rparr>"
    by (intro fetchData_stores [where fetch = fetch and f = f and r = r, OF u]) simp_all
  with a show "climateData (fetchData fetch f s) = field body ''data''"
    by (simp add: store_results_fields)
next
  fix fetch :: network and s :: app_state and e
  assume "fetch (fetch_url f) = Inl e"
  then have "fetchData fetch f s =
           (clear_results (Str (if message e \<noteq> [] then message e else ''Error fetching data.''))
              (s\<lparr>loading := True, error := Null\<rparr>))\<lparr>loading := False\<rparr>"
    by (rule fetchData_rejected)
  then show "error (fetchData fetch f s)
                = Str (if message e \<noteq> [] then message e else ''Error fetching data.'')"
    by (simp add: clear_results_def)
next
  have "set analysis_select_values = {''raw'', ''weighted'', ''trends''}"
    by (simp only: analysis_values list.set)
  then show "set analysis_select_values = {''trends'', ''weighted'', ''raw''}"
    by (simp only: insert_commute)
qed

lemma example_urls:
  "fetch_url trends_filters = ''/api/v1/trends?location_id=1''"
  "fetch_url weighted_filters = ''/api/v1/summary?location_id=1''"
  "fetch_url initial_filters = ''/api/v1/climate?''"
  "URLSearchParams_toString (queryParams trends_filters) = ''location_id=1''"
  "URLSearchParams_toString (queryParams weighted_filters) = ''location_id=1''"
  "URLSearchParams_toString (queryParams initial_filters) = []"
  by code_simp+

lemma example_types:
  "analysisType trends_filters = ''trends''"
  "analysisType weighted_filters = ''weighted''"
  "analysisType initial_filters = ''raw''"
  by (simp_all add: trends_filters_def weighted_filters_def initial_filters_def)

lemma example_payloads:
  "field (Obj [(''data'', Obj [(''temperature'', Null)])]) ''data'' = Obj [(''temperature'', Null)]"
  "field (Obj [(''data'', Arr [Num (Fin 1)])]) ''data'' = Arr [Num (Fin 1)]"
  "\<not> no_payload (Obj [(''temperature'', Null)])"
  "\<not> no_payload (Arr [Num (Fin 1)])"
  by (simp_all add: field_def no_payload_def)

theorem endpoint_by_analysis_type_witness:
  "fetch_url trends_filters = ''/api/v1/trends?location_id=1''
   \<and> fetch_url weighted_filters = ''/api/v1/summary?location_id=1''
   \<and> fetch_url initial_filters = ''/api/v1/climate?''
   \<and> trendData (fetchData (answer_only_at ''/api/v1/trends?location_id=1''
                    (Obj [(''data'', Obj [(''temperature'', Null)])])) trends_filters initial_state)
       = Obj [(''temperature'', Null)]
   \<and> summaryData (fetchData (answer_only_at ''/api/v1/summary?location_id=1''
                    (Obj [(''data'', Obj [(''temperature'', Null)])])) weighted_filters initial_state)
       = Obj [(''temperature'', Null)]
   \<and> climateData (fetchData (answer_only_at ''/api/v1/climate?''
                    (Obj [(''data'', Arr [Num (Fin 1)])])) initial_filters initial_state)
       = Arr [Num (Fin 1)]
   \<and> error (fetchData (answer_only_at ''/api/v1/climate?location_id=1''
                    (Obj [(''data'', Obj [(''temperature'', Null)])])) trends_filters initial_state)
       = Str ''Failed to fetch''
   \<and> fetchData (example_fetch (Obj [(''data'', Obj [(''temperature'', Null)])])) trends_filters initial_state
     = fetchData (answer_only_at ''/api/v1/trends?location_id=1''
                    (Obj [(''data'', Obj [(''temperature'', Null)])])) trends_filters initial_state"
proof -
  let ?body = "Obj [(''data'', Obj [(''temperature'', Null)])]"
  let ?rows = "Obj [(''data'', Arr [Num (Fin 1)])]"
  let ?r = "\<lambda>b. \<lparr>ok = True, status = 200, statusText = ''OK'', json = Inr b\<rparr>"
  have t: "trendData (fetchData (answer_only_at ''/api/v1/trends?location_id=1'' ?body)
              trends_filters initial_state) = Obj [(''temperature'', Null)]"
    using endpoint_by_analysis_type [of trends_filters, THEN conjunct2, THEN conjunct2, THEN conjunct1,
        rule_format, of "answer_only_at ''/api/v1/trends?location_id=1'' ?body" "?r ?body" ?body initial_state]
    by (simp add: example_urls example_types example_payloads answer_only_at_def example_fetch_def)
  have w: "summaryData (fetchData (answer_only_at ''/api/v1/summary?location_id=1'' ?body)
              weighted_filters initial_state) = Obj [(''temperature'', Null)]"
    using endpoint_by_analysis_type [of weighted_filters, THEN conjunct2, THEN conjunct2, THEN conjunct2,
        THEN conjunct1, rule_format,
        of "answer_only_at ''/api/v1/summary?location_id=1'' ?body" "?r ?body" ?body initial_state]
    by (simp add: example_urls example_types example_payloads answer_only_at_def example_fetch_def)
  have c: "climateData (fetchData (answer_only_at ''/api/v1/climate?'' ?rows)
              initial_filters initial_state) = Arr [Num (Fin 1)]"
    using endpoint_by_analysis_type [of initial_filters, THEN conjunct2, THEN conjunct2, THEN conjunct2,
        THEN conjunct2, THEN conjunct1, rule_format,
        of "answer_only_at ''/api/v1/climate?'' ?rows" "?r ?rows" ?rows initial_state]
    by (simp add: example_urls example_types example_payloads answer_only_at_def example_fetch_def)
  have e: "error (fetchData (answer_only_at ''/api/v1/climate?location_id=1'' ?body)
              trends_filters initial_state) = Str ''Failed to fetch''"
    using endpoint_by_analysis_type [of trends_filters, THEN conjunct2, THEN conjunct2, THEN conjunct2,
        THEN conjunct2, THEN conjunct2, THEN conjunct1, rule_format,
        of "answer_only_at ''/api/v1/climate?location_id=1'' ?body" "TypeError ''Failed to fetch''" initial_state]
    by (simp add: example_urls answer_only_at_def)
  have q: "fetchData (example_fetch ?body) trends_filters initial_state
     = fetchData (answer_only_at ''/api/v1/trends?location_id=1'' ?body) trends_filters initial_state"
    by (rule endpoint_by_analysis_type [of trends_filters, THEN conjunct2, THEN conjunct1, rule_format])
       (simp only: example_urls answer_only_at_def simp_thms if_True)
  from t w c e q show ?thesis
    by (simp only: example_urls simp_thms)
qed

subsection \<open>The results of fetchData\<close>

lemma clear_results_fields:
  "trendData (clear_results m s) = Null" "summaryData (clear_results m s) = Null"
  "climateData (clear_results m s) = Arr []" "error (clear_results m s) = m"
  "loading (clear_results m s) = loading s" "filters (clear_results m s) = filters s"
  by (simp_all add: clear_results_def)

lemma settled_clear: "settled f (clear_results m s)"
  by (simp add: settled_def clear_results_fields)

lemma settled_store: "settled f (store_results f d s)"
  by (simp add: settled_def store_results_def)

lemma settled_loading: "settled f (s\<lparr>loading := b\<rparr>) = settled f s"
  by (simp add: settled_def)

lemma fetchData_try_settled: "fetchData_try fetch f s = Inr t \<Longrightarrow> settled f t"
  unfolding fetchData_try_def
  by (auto simp: bind_eq_Inr settled_clear settled_store settled_loading split: if_splits)

lemma fetchData_settled: "settled f (fetchData fetch f s)"
  unfolding fetchData_def Let_def
  by (cases "fetchData_try fetch f (s\<lparr>loading := True, error := Null\<rparr>)")
     (simp_all add: settled_loading settled_clear fetchData_try_settled)

lemma fetchData_loading: "loading (fetchData fetch f s) = False"
  by (simp add: fetchData_def Let_def)

text \<open>
  Claim C9. After a completed call of \<open>fetchData\<close>, whatever the network did, \<open>loading\<close>
  is false, the two result states that do not match the requested analysis type are
  reset (\<open>trendData\<close> and \<open>summaryData\<close> to null, \<open>climateData\<close> to the empty
  array), and so no two of the three result states hold data at once.
\<close>

theorem fetchData_single_result:
  "loading (fetchData fetch f s) = False
   \<and> (analysisType f = ''trends''
        \<longrightarrow> summaryData (fetchData fetch f s) = Null \<and> climateData (fetchData fetch f s) = Arr [])
   \<and> (analysisType f = ''weighted''
        \<longrightarrow> trendData (fetchData fetch f s) = Null \<and> climateData (fetchData fetch f s) = Arr [])
   \<and> (analysisType f \<noteq> ''trends'' \<and> analysisType f \<noteq> ''weighted''
        \<longrightarrow> trendData (fetchData fetch f s) = Null \<and> summaryData (fetchData fetch f s) = Null)
   \<and> \<not> (trendData (fetchData fetch f s) \<noteq> Null \<and> summaryData (fetchData fetch f s) \<noteq> Null)
   \<and> \<not> (trendData (fetchData fetch f s) \<noteq> Null \<and> climateData (fetchData fetch f s) \<noteq> Arr [])
   \<and> \<not> (summaryData (fetchData fetch f s) \<noteq> Null \<and> climateData (fetchData fetch f s) \<noteq> Arr [])"
  using fetchData_settled [of f fetch s] fetchData_loading [of fetch f s]
  unfolding settled_def by blast

theorem fetchData_single_result_witness:
  "trendData (fetchData (example_fetch (Obj [(''data'', Obj [(''temperature'', Null)])])) trends_filters initial_state)
     = Obj [(''temperature'', Null)]
   \<and> summaryData (fetchData (example_fetch (Obj [(''data'', Obj [(''temperature'', Null)])])) trends_filters initial_state)
     = Null
   \<and> climateData (fetchData (example_fetch (Obj [(''data'', Obj [(''temperature'', Null)])])) trends_filters initial_state)
     = Arr []
   \<and> summaryData (fetchData (example_fetch (Obj [(''data'', Obj [(''temperature'', Null)])])) weighted_filters initial_state)
     = Obj [(''temperature'', Null)]
   \<and> trendData (fetchData (example_fetch (Obj [(''data'', Obj [(''temperature'', Null)])])) weighted_filters initial_state)
     = Null
   \<and> climateData (fetchData (example_fetch (Obj [(''data'', Arr [Num (Fin 1)])])) initial_filters initial_state)
     = Arr [Num (Fin 1)]
   \<and> trendData (fetchData (example_fetch (Obj [(''data'', Arr [Num (Fin 1)])])) initial_filters initial_state)
     = Null
   \<and> error (fetchData (\<lambda>url. Inl (TypeError ''Failed to fetch'')) trends_filters initial_state)
     = Str ''Failed to fetch''
   \<and> trendData (fetchData (\<lambda>url. Inl (TypeError ''Failed to fetch'')) trends_filters initial_state)
     = Null"
  using fetchData_single_result [of "example_fetch (Obj [(''data'', Obj [(''temperature'', Null)])])"
          trends_filters initial_state]
        fetchData_single_result [of "example_fetch (Obj [(''data'', Obj [(''temperature'', Null)])])"
          weighted_filters initial_state]
        fetchData_single_result [of "example_fetch (Obj [(''data'', Arr [Num (Fin 1)])])"
          initial_filters initial_state]
        fetchData_single_result [of "\<lambda>url. Inl (TypeError ''Failed to fetch'')" trends_filters initial_state]
  by (simp add: fetchData_def fetchData_try_def example_fetch_def trends_filters_def weighted_filters_def
        initial_filters_def initial_state_def no_payload_def store_results_def clear_results_def)

subsection \<open>No data\<close>

lemma no_payload_cases:
  "d = Undefined \<or> d = Null \<or> d = Arr [] \<or> d = Obj [] \<Longrightarrow> no_payload d"
  by (auto simp: no_payload_def)

lemma fetchData_try_no_payload:
  assumes "fetch (fetch_url f) = Inr r" and "ok r" and "json r = Inr body"
    and "no_payload (field body ''data'')"
  shows "fetchData_try fetch f s =
           Inr ((clear_results (Str ''No data available for the selected filters.'') s)\<lparr>loading := False\<rparr>)"
proof (cases "truthy body")
  case True
  then show ?thesis
    using assms by (simp add: fetchData_try_def field_get_prop)
next
  case False
  then show ?thesis
    using assms by (simp add: fetchData_try_def)
qed

lemma fetchData_no_payload:
  assumes "fetch (fetch_url f) = Inr r" and "ok r" and "json r = Inr body"
    and "no_payload (field body ''data'')"
  shows "fetchData fetch f s =
           s\<lparr>loading := False, error := Str ''No data available for the selected filters.'',
             trendData := Null, summaryData := Null, climateData := Arr []\<rparr>"
  by (simp add: fetchData_def Let_def
        fetchData_try_no_payload [where fetch = fetch and f = f, OF assms] clear_results_def)

lemma round2_nullish: "is_nullish v \<Longrightarrow> round2 rt v = ''-''"
  by (cases v) (simp_all add: round2_def)

lemma table_row_cells:
  assumes "table_row rt (i, m, stats) = Inr row"
  shows "min_cell row = round2 rt (field stats ''min'')"
    and "max_cell row = round2 rt (field stats ''max'')"
    and "avg_cell row = round2 rt (field stats ''avg'')"
    and "weighted_avg_cell row = round2 rt (field stats ''weighted_avg'')"
  using assms unfolding table_row_def
  by (auto simp: bind_eq_Inr field_def)

text \<open>
  Claim C4. When the request succeeds and the \<open>data\<close> payload of the parsed body is
  absent (missing or null), an empty array or an empty object, \<open>fetchData\<close> sets the
  error message \<open>No data available for the selected filters.\<close>, sets \<open>trendData\<close> and
  \<open>summaryData\<close> to null and \<open>climateData\<close> to the empty array, and leaves \<open>loading\<close>
  false. For the analysis type \<open>weighted\<close> the application then shows that message and
  the placeholder of \<open>SummaryTable\<close>, no table. \<open>round2\<close> prints null and undefined
  as \<open>-\<close>, and so does every statistic cell of a table row whose value is null or
  undefined.
\<close>

theorem no_data_message:
  assumes "fetch (fetch_url f) = Inr r" and "ok r" and "json r = Inr body"
    and "field body ''data'' = Undefined \<or> field body ''data'' = Null
         \<or> field body ''data'' = Arr [] \<or> field body ''data'' = Obj []"
  shows "fetchData fetch f s =
           s\<lparr>loading := False, error := Str ''No data available for the selected filters.'',
             trendData := Null, summaryData := Null, climateData := Arr []\<rparr>
         \<and> (analysisType f = ''weighted'' \<longrightarrow>
              App_render rt (handleApplyFilters fetch f s) =
                Inr \<lparr>error_banner = Shown (Str ''No data available for the selected filters.''),
                     main = SummaryMain NoSummaryData, quality_indicator_data = Arr []\<rparr>)
         \<and> round2 rt Null = ''-'' \<and> round2 rt Undefined = ''-''
         \<and> (\<forall>i m stats row. table_row rt (i, m, stats) = Inr row \<longrightarrow>
              (is_nullish (field stats ''min'') \<longrightarrow> min_cell row = ''-'')
              \<and> (is_nullish (field stats ''max'') \<longrightarrow> max_cell row = ''-'')
              \<and> (is_nullish (field stats ''avg'') \<longrightarrow> avg_cell row = ''-'')
              \<and> (is_nullish (field stats ''weighted_avg'') \<longrightarrow> weighted_avg_cell row = ''-''))"
proof -
  have np: "no_payload (field body ''data'')"
    using assms(4) by (rule no_payload_cases)
  have st: "fetchData fetch f t =
           t\<lparr>loading := False, error := Str ''No data available for the selected filters.'',
             trendData := Null, summaryData := Null, climateData := Arr []\<rparr>" for t
    by (rule fetchData_no_payload [where fetch = fetch and f = f, OF assms(1-3) np])
  have view: "App_render rt (handleApplyFilters fetch f s) =
                Inr \<lparr>error_banner = Shown (Str ''No data available for the selected filters.''),
                     main = SummaryMain NoSummaryData, quality_indicator_data = Arr []\<rparr>"
    if "analysisType f = ''weighted''"
    using that by (simp add: handleApplyFilters_def st App_render_def SummaryTable_def)
  have cells: "(is_nullish (field stats ''min'') \<longrightarrow> min_cell row = ''-'')
              \<and> (is_nullish (field stats ''max'') \<longrightarrow> max_cell row = ''-'')
              \<and> (is_nullish (field stats ''avg'') \<longrightarrow> avg_cell row = ''-'')
              \<and> (is_nullish (field stats ''weighted_avg'') \<longrightarrow> weighted_avg_cell row = ''-'')"
    if "table_row rt (i, m, stats) = Inr row" for i m stats row
    using table_row_cells [OF that] by (simp add: round2_nullish)
  show ?thesis
    using st [of s] view cells by (simp add: round2_def)
qed

theorem no_data_message_witness:
  "fetchData (example_fetch (Obj [(''data'', Arr [])])) weighted_filters initial_state =
     initial_state\<lparr>error := Str ''No data available for the selected filters.''\<rparr>
   \<and> App_render example_runtime
        (handleApplyFilters (example_fetch (Obj [(''data'', Arr [])])) weighted_filters initial_state) =
       Inr \<lparr>error_banner = Shown (Str ''No data available for the selected filters.''),
            main = SummaryMain NoSummaryData, quality_indicator_data = Arr []\<rparr>
   \<and> map min_cell
        (case table_row example_runtime (0, ''temperature'', Obj [(''min'', Null), (''max'', Num (Fin 3))]) of
           Inr row \<Rightarrow> [row] | Inl e \<Rightarrow> []) = [''-'']"
  using no_data_message [of "example_fetch (Obj [(''data'', Arr [])])" weighted_filters
      "\<lparr>ok = True, status = 200, statusText = ''OK'', json = Inr (Obj [(''data'', Arr [])])\<rparr>"
      "Obj [(''data'', Arr [])]" initial_state example_runtime]
  by (simp add: example_fetch_def field_def weighted_filters_def initial_filters_def initial_state_def
        table_row_def round2_def)

subsection \<open>The trend panel\<close>

lemma mapM_eq_Inr: "mapM f xs = Inr ys \<longleftrightarrow> list_all2 (\<lambda>x y. f x = Inr y) xs ys"
  by (induction xs arbitrary: ys) (auto simp: bind_eq_Inr list_all2_Cons1)

lemma mapM_total:
  "(\<And>x. x \<in> set xs \<Longrightarrow> \<exists>y. f x = Inr y) \<Longrightarrow> \<exists>ys. mapM f xs = Inr ys"
proof (induction xs)
  case Nil
  show ?case by simp
next
  case (Cons x xs)
  obtain y where y: "f x = Inr y"
    using Cons.prems [of x] by auto
  obtain ys where ys: "mapM f xs = Inr ys"
    using Cons.IH Cons.prems by auto
  show ?case by (simp add: y ys)
qed

lemma mapM_nth:
  "mapM f xs = Inr ys \<Longrightarrow> length ys = length xs \<and> (\<forall>i<length xs. f (xs ! i) = Inr (ys ! i))"
  by (simp add: mapM_eq_Inr list_all2_conv_all_nth)

lemma is_object_not_nullish: "is_object v \<Longrightarrow> \<not> is_nullish v"
  by (cases v) simp_all

lemma get_prop_object: "is_object v \<Longrightarrow> get_prop v k = Inr (field v k)"
  by (simp add: get_prop_field is_object_not_nullish)

lemma overview_card_trend_entry:
  assumes "trend_entry a"
  shows "\<exists>c. overview_card rt (m, a) = Inr c \<and> card_metric c = m
     \<and> (field (field a ''trend'') ''direction'' = Null \<longrightarrow> direction_value c = Str ''N/A'')
     \<and> (field (field a ''trend'') ''rate'' = Null \<longrightarrow> rate_value c = ''N/A'')
     \<and> (field (field a ''trend'') ''confidence'' = Null \<longrightarrow> confidence_value c = ''N/A'')"
proof -
  have a: "is_object a" and t: "is_object (field a ''trend'')"
    using assms by (simp_all add: trend_entry_def)
  show ?thesis
    by (simp add: overview_card_def get_prop_object [OF a] get_prop_object [OF t])
qed

lemma anomaly_line_object: "is_object x \<Longrightarrow> \<exists>r. anomaly_line rt x = Inr r"
  by (simp add: anomaly_line_def get_prop_object)

lemma anomaly_block_trend_entry:
  assumes "trend_entry a"
  shows "\<exists>b. anomaly_block rt (m, a) = Inr b"
proof -
  have a: "is_object a"
    using assms by (simp add: trend_entry_def)
  obtain xs where xs: "field a ''anomalies'' = Arr xs" and objs: "list_all is_object xs"
    using assms by (auto simp: trend_entry_def split: jsval.splits)
  have "\<exists>rows. mapM (anomaly_line rt) xs = Inr rows"
    using objs by (intro mapM_total anomaly_line_object) (simp add: list_all_iff)
  then obtain rows where "mapM (anomaly_line rt) xs = Inr rows" ..
  then show ?thesis
    by (simp add: anomaly_block_def get_prop_object [OF a] xs)
qed

lemma pattern_row_object: "is_object (snd p) \<Longrightarrow> \<exists>r. pattern_row rt p = Inr r"
  by (cases p) (simp add: pattern_row_def get_prop_object)

lemma seasonal_block_trend_entry:
  assumes "trend_entry a"
  shows "\<exists>b. seasonal_block rt (m, a) = Inr b"
proof -
  have a: "is_object a" and s: "is_object (field a ''seasonality'')"
    using assms by (simp_all add: trend_entry_def)
  obtain b where b: "field (field a ''seasonality'') ''detected'' = Bool b"
    using assms by (auto simp: trend_entry_def split: jsval.splits)
  show ?thesis
  proof (cases b)
    case False
    then show ?thesis
      by (simp add: seasonal_block_def get_prop_object [OF a] get_prop_object [OF s] b)
  next
    case True
    then obtain ps where ps: "field (field a ''seasonality'') ''pattern'' = Obj ps"
      and objs: "list_all (\<lambda>p. is_object (snd p)) ps"
      using assms b by (auto simp: trend_entry_def split: jsval.splits)
    have "\<exists>rows. mapM (pattern_row rt) ps = Inr rows"
      using objs by (intro mapM_total pattern_row_object) (simp add: list_all_iff)
    then obtain rows where "mapM (pattern_row rt) ps = Inr rows" ..
    then show ?thesis
      by (simp add: seasonal_block_def get_prop_object [OF a] get_prop_object [OF s] b True ps)
  qed
qed

lemma TrendAnalysis_panel:
  assumes "\<forall>e \<in> set entries. trend_entry (snd e)"
  shows "\<exists>cards an se. TrendAnalysis rt (Obj entries) False = Inr (Panel cards an se)
           \<and> mapM (overview_card rt) entries = Inr cards"
proof -
  have "\<exists>cards. mapM (overview_card rt) entries = Inr cards"
  proof (rule mapM_total)
    fix e assume "e \<in> set entries"
    then have "trend_entry (snd e)" using assms by simp
    from overview_card_trend_entry [OF this, of rt "fst e"]
    show "\<exists>c. overview_card rt e = Inr c" by auto
  qed
  then obtain cards where cards: "mapM (overview_card rt) entries = Inr cards" ..
  have "\<exists>an. mapM (anomaly_block rt) entries = Inr an"
  proof (rule mapM_total)
    fix e assume "e \<in> set entries"
    then have "trend_entry (snd e)" using assms by simp
    from anomaly_block_trend_entry [OF this, of rt "fst e"]
    show "\<exists>b. anomaly_block rt e = Inr b" by simp
  qed
  then obtain an where an: "mapM (anomaly_block rt) entries = Inr an" ..
  have "\<exists>se. mapM (seasonal_block rt) entries = Inr se"
  proof (rule mapM_total)
    fix e assume "e \<in> set entries"
    then have "trend_entry (snd e)" using assms by simp
    from seasonal_block_trend_entry [OF this, of rt "fst e"]
    show "\<exists>b. seasonal_block rt e = Inr b" by simp
  qed
  then obtain se where se: "mapM (seasonal_block rt) entries = Inr se" ..
  have "TrendAnalysis rt (Obj entries) False = Inr (Panel cards an se)"
    by (simp add: TrendAnalysis_def cards an se)
  with cards show ?thesis by blast
qed

text \<open>
  Claim C5. For a trend-mode payload in the shape of the interface, \<open>TrendAnalysis\<close>
  renders (it does not throw), its overview has one card per metric, in the order of the
  payload, and in the card of a metric the direction, the rate of change and the
  confidence read \<open>N/A\<close> whenever the field \<open>trend.direction\<close>, \<open>trend.rate\<close> or
  \<open>trend.confidence\<close> of that metric is null.
\<close>

theorem null_trend_fields_render_NA:
  assumes "data = Obj entries" and "\<forall>e \<in> set entries. trend_entry (snd e)"
  shows "\<exists>cards an se. TrendAnalysis rt data False = Inr (Panel cards an se)
     \<and> map card_metric cards = map fst entries
     \<and> (\<forall>i < length entries.
          (field (field (snd (entries ! i)) ''trend'') ''direction'' = Null
             \<longrightarrow> direction_value (cards ! i) = Str ''N/A'')
        \<and> (field (field (snd (entries ! i)) ''trend'') ''rate'' = Null
             \<longrightarrow> rate_value (cards ! i) = ''N/A'')
        \<and> (field (field (snd (entries ! i)) ''trend'') ''confidence'' = Null
             \<longrightarrow> confidence_value (cards ! i) = ''N/A''))"
proof -
  obtain cards an se where panel: "TrendAnalysis rt data False = Inr (Panel cards an se)"
    and cards: "mapM (overview_card rt) entries = Inr cards"
    using TrendAnalysis_panel [OF assms(2), of rt] assms(1) by blast
  have len: "length cards = length entries"
    and nth: "\<And>i. i < length entries \<Longrightarrow> overview_card rt (entries ! i) = Inr (cards ! i)"
    using mapM_nth [OF cards] by simp_all
  have card: "card_metric (cards ! i) = fst (entries ! i)
      \<and> (field (field (snd (entries ! i)) ''trend'') ''direction'' = Null
             \<longrightarrow> direction_value (cards ! i) = Str ''N/A'')
      \<and> (field (field (snd (entries ! i)) ''trend'') ''rate'' = Null
             \<longrightarrow> rate_value (cards ! i) = ''N/A'')
      \<and> (field (field (snd (entries ! i)) ''trend'') ''confidence'' = Null
             \<longrightarrow> confidence_value (cards ! i) = ''N/A'')"
    if i: "i < length entries" for i
  proof -
    have "trend_entry (snd (entries ! i))"
      using assms(2) i by simp
    from overview_card_trend_entry [OF this, of rt "fst (entries ! i)"] nth [OF i]
    show ?thesis by auto
  qed
  have "map card_metric cards = map fst entries"
    using len card by (auto simp: list_eq_iff_nth_eq)
  with panel card show ?thesis by blast
qed

lemma example_entries_shape: "\<forall>e \<in> set example_entries. trend_entry (snd e)"
  by code_simp

lemma example_trend_fields:
  "length example_entries = 1"
  "map fst example_entries = [''temperature'']"
  "field (field (snd (example_entries ! 0)) ''trend'') ''direction'' = Null"
  "field (field (snd (example_entries ! 0)) ''trend'') ''rate'' = Null"
  "field (field (snd (example_entries ! 0)) ''trend'') ''confidence'' = Null"
  by code_simp+

theorem null_trend_fields_render_NA_witness:
  "\<exists>cards an se. TrendAnalysis example_runtime example_trends False = Inr (Panel cards an se)
     \<and> map card_metric cards = [''temperature'']
     \<and> direction_value (cards ! 0) = Str ''N/A''
     \<and> rate_value (cards ! 0) = ''N/A''
     \<and> confidence_value (cards ! 0) = ''N/A''"
proof -
  obtain cards an se where
    p: "TrendAnalysis example_runtime example_trends False = Inr (Panel cards an se)"
    and m: "map card_metric cards = map fst example_entries"
    and n: "\<forall>i < length example_entries.
          (field (field (snd (example_entries ! i)) ''trend'') ''direction'' = Null
             \<longrightarrow> direction_value (cards ! i) = Str ''N/A'')
        \<and> (field (field (snd (example_entries ! i)) ''trend'') ''rate'' = Null
             \<longrightarrow> rate_value (cards ! i) = ''N/A'')
        \<and> (field (field (snd (example_entries ! i)) ''trend'') ''confidence'' = Null
             \<longrightarrow> confidence_value (cards ! i) = ''N/A'')"
    using null_trend_fields_render_NA [OF example_trends_def example_entries_shape, of example_runtime]
    by blast
  from m example_trend_fields(2) have m': "map card_metric cards = [''temperature'']" by simp
  from n example_trend_fields have
    "direction_value (cards ! 0) = Str ''N/A'' \<and> rate_value (cards ! 0) = ''N/A''
       \<and> confidence_value (cards ! 0) = ''N/A''"
    by simp
  with p m' show ?thesis
    by (intro exI [of _ cards] exI [of _ an] exI [of _ se]) simp
qed








lemma seasonal_block_not_detected:
  assumes "field (field a ''seasonality'') ''detected'' = Bool False"
  shows "seasonal_block rt (m, a) = Inr (Falsy (Bool False))"
proof -
  have s: "\<not> is_nullish (field a ''seasonality'')"
    using assms by (cases "field a ''seasonality''") (simp_all add: field_def)
  then have a: "\<not> is_nullish a"
    by (cases a) (simp_all add: field_def)
  show ?thesis
    by (simp add: seasonal_block_def get_prop_field [OF a] get_prop_field [OF s] assms)
qed

text \<open>
  Claim C7. For a metric whose \<open>seasonality.detected\<close> is false, the seasonal block is
  the operand \<open>false\<close>, for which nothing is displayed, whatever the fields
  \<open>period\<close>, \<open>confidence\<close> and \<open>pattern\<close> hold (they are not read, so that a
  null \<open>pattern\<close> does not throw); and whenever \<open>TrendAnalysis\<close> renders its panel,
  the entry of that metric in the seasonal section is that operand.
\<close>

theorem no_seasonal_block_unless_detected:
  assumes "Object_entries data = Inr entries"
    and "i < length entries"
    and "entries ! i = (m, a)"
    and "field (field a ''seasonality'') ''detected'' = Bool False"
  shows "seasonal_block rt (m, a) = Inr (Falsy (Bool False))
     \<and> (\<forall>a'. field (field a' ''seasonality'') ''detected'' = Bool False
           \<longrightarrow> seasonal_block rt (m, a') = seasonal_block rt (m, a))
     \<and> (\<forall>cards an se. TrendAnalysis rt data False = Inr (Panel cards an se)
           \<longrightarrow> i < length se \<and> se ! i = Falsy (Bool False))"
proof -
  have blk: "seasonal_block rt (m, a) = Inr (Falsy (Bool False))"
    using assms(4) by (rule seasonal_block_not_detected)
  have indep: "seasonal_block rt (m, a') = seasonal_block rt (m, a)"
    if "field (field a' ''seasonality'') ''detected'' = Bool False" for a'
    using seasonal_block_not_detected [OF that] blk by simp
  have panel: "i < length se \<and> se ! i = Falsy (Bool False)"
    if "TrendAnalysis rt data False = Inr (Panel cards an se)" for cards an se
  proof -
    have "mapM (seasonal_block rt) entries = Inr se"
      using that assms(1) unfolding TrendAnalysis_def
      by (auto simp: bind_eq_Inr split: if_splits)
    from mapM_nth [OF this] assms(2,3) blk show ?thesis by auto
  qed
  from blk indep panel show ?thesis by blast
qed

lemma example_detected:
  "Object_entries example_trends = Inr example_entries"
  "field (field (snd (example_entries ! 0)) ''seasonality'') ''detected'' = Bool False"
  "field (field (snd (example_entries ! 0)) ''seasonality'') ''pattern'' = Null"
  by code_simp+

lemma example_panel:
  "\<exists>cards an se. TrendAnalysis example_runtime example_trends False = Inr (Panel cards an se)"
  using TrendAnalysis_panel [OF example_entries_shape, of example_runtime]
  unfolding example_trends_def by blast

theorem no_seasonal_block_unless_detected_witness:
  "seasonal_block example_runtime (''temperature'', snd (example_entries ! 0)) = Inr (Falsy (Bool False))
   \<and> (\<exists>cards an se. TrendAnalysis example_runtime example_trends False = Inr (Panel cards an se)
         \<and> se ! 0 = Falsy (Bool False))"
proof -
  have i: "0 < length example_entries"
    by (simp add: example_trend_fields(1))
  have e: "example_entries ! 0 = (''temperature'', snd (example_entries ! 0))"
    by code_simp
  note t = no_seasonal_block_unless_detected [OF example_detected(1) i e example_detected(2),
      of example_runtime]
  obtain cards an se where
    p: "TrendAnalysis example_runtime example_trends False = Inr (Panel cards an se)"
    using example_panel by blast
  have "se ! 0 = Falsy (Bool False)"
    using t p by simp
  with t p show ?thesis
    by (intro conjI exI [of _ cards] exI [of _ an] exI [of _ se]) simp_all
qed

subsection \<open>The query string of api.js\<close>

lemma split_on_notin: "c \<notin> set a \<Longrightarrow> split_on c a = [a]"
  by (induction a) auto

lemma split_on_append: "c \<notin> set a \<Longrightarrow> split_on c (a @ c # b) = a # split_on c b"
  by (induction a) auto

lemma split_on_join:
  "xs \<noteq> [] \<Longrightarrow> \<forall>x \<in> set xs. c \<notin> set x \<Longrightarrow> split_on c (join [c] xs) = xs"
proof (induction "[c]" xs rule: join.induct)
  case 1
  then show ?case by simp
next
  case (2 x)
  then show ?case by (simp add: split_on_notin)
next
  case (3 x y ys)
  then show ?case by (simp add: split_on_append)
qed

lemma join_nonempty: "xs \<noteq> [] \<Longrightarrow> hd xs \<noteq> [] \<Longrightarrow> join sep xs \<noteq> []"
  by (induction sep xs rule: join.induct) auto

lemma name_value_pair: "CHR ''='' \<notin> set a \<Longrightarrow> name_value (a @ CHR ''='' # b) = (a, b)"
  by (induction a) (auto simp: name_value_def)

lemma of_char_div_16: "(of_char c :: nat) div 16 < 16"
proof -
  have "(of_char c :: nat) mod 256 < 256"
    by (rule mod_less_divisor) simp
  then have "(of_char c :: nat) < 256"
    by (simp only: of_char_mod_256)
  then show ?thesis by arith
qed

lemma hex_digit_range: "n < 16 \<Longrightarrow> hex_digit n \<in> set ''0123456789ABCDEF''"
  unfolding hex_digit_def by (rule nth_mem) simp

lemma percent_encode_chars:
  assumes "x \<in> set (percent_encode c)"
  shows "x = CHR ''%'' \<or> x \<in> set ''0123456789ABCDEF''"
proof -
  have hi: "hex_digit (of_char c div 16) \<in> set ''0123456789ABCDEF''"
    by (rule hex_digit_range [OF of_char_div_16])
  have "(of_char c :: nat) mod 16 < 16"
    by (rule mod_less_divisor) simp
  then have lo: "hex_digit (of_char c mod 16) \<in> set ''0123456789ABCDEF''"
    by (rule hex_digit_range)
  from assms have "x = CHR ''%'' \<or> x = hex_digit (of_char c div 16) \<or> x = hex_digit (of_char c mod 16)"
    by (simp add: percent_encode_def)
  with hi lo show ?thesis by blast
qed

lemma encodeURIComponent_chars:
  assumes "x \<in> set (encodeURIComponent s)"
  shows "uri_unreserved x \<or> x = CHR ''%'' \<or> x \<in> set ''0123456789ABCDEF''"
proof -
  from assms have "\<exists>c. x \<in> set (if uri_unreserved c then [c] else percent_encode c)"
    unfolding encodeURIComponent_def set_concat set_map by blast
  then obtain c where x: "x \<in> set (if uri_unreserved c then [c] else percent_encode c)" ..
  show ?thesis
  proof (cases "uri_unreserved c")
    case True
    with x have "x = c" by simp
    with True show ?thesis by (simp only: simp_thms)
  next
    case False
    with x have "x \<in> set (percent_encode c)" by simp
    then have "x = CHR ''%'' \<or> x \<in> set ''0123456789ABCDEF''"
      by (rule percent_encode_chars)
    then show ?thesis by (rule disjI2)
  qed
qed

lemma not_unreserved: "\<not> uri_unreserved CHR ''&''" "\<not> uri_unreserved CHR ''=''"
  by (simp_all add: uri_unreserved_def alphanumeric_def)

lemma encodeURIComponent_no_separator:
  "CHR ''&'' \<notin> set (encodeURIComponent s)" "CHR ''='' \<notin> set (encodeURIComponent s)"
  using encodeURIComponent_chars [of "CHR ''&''" s] encodeURIComponent_chars [of "CHR ''=''" s]
    not_unreserved
  by auto

lemma encodeURIComponent_empty: "encodeURIComponent s = [] \<longleftrightarrow> s = []"
  by (cases s) (auto simp: encodeURIComponent_def percent_encode_def)

lemma show_nat_nonempty: "show_nat n \<noteq> []"
  by (subst show_nat.simps) simp

lemma ToString_primitive:
  assumes "is_primitive v" and "v \<noteq> Str []" and "\<forall>x. FractionToString rt x \<noteq> []"
  shows "ToString rt v \<noteq> []"
proof (cases v)
  case (Num n)
  then show ?thesis
    using assms(3) by (cases n) (simp_all add: show_nat_nonempty)
qed (use assms in simp_all)

lemma query_pair_no_amp: "CHR ''&'' \<notin> set (query_pair rt e)"
  by (cases e) (simp add: query_pair_def encodeURIComponent_no_separator)

lemma query_pair_nonempty: "query_pair rt e \<noteq> []"
  by (cases e) (simp add: query_pair_def)

lemma name_value_query_pair:
  "name_value (query_pair rt e) = (encodeURIComponent (fst e), encodeURIComponent (ToString rt (snd e)))"
  by (cases e) (simp add: query_pair_def name_value_pair encodeURIComponent_no_separator)

lemma query_parameters_join:
  "query_parameters (join ''&'' (map (query_pair rt) es)) =
     map (\<lambda>e. (encodeURIComponent (fst e), encodeURIComponent (ToString rt (snd e)))) es"
proof (cases es)
  case Nil
  then show ?thesis by (simp add: query_parameters_def)
next
  case (Cons e es')
  have ne: "join ''&'' (map (query_pair rt) es) \<noteq> []"
    by (rule join_nonempty) (simp_all add: Cons query_pair_nonempty)
  have "split_on CHR ''&'' (join ''&'' (map (query_pair rt) es)) = map (query_pair rt) es"
    by (rule split_on_join) (simp_all add: Cons query_pair_no_amp)
  then show ?thesis
    by (simp add: query_parameters_def ne name_value_query_pair)
qed

lemma kept_iff: "kept e \<longleftrightarrow> snd e \<noteq> Undefined \<and> snd e \<noteq> Null \<and> snd e \<noteq> Str []"
  by (cases e) (simp add: kept_def)

text \<open>
  Claim C10, as amended. For every filters object, \<open>buildQueryString\<close> returns a query
  string whose parameters, read back, are exactly the entries whose value is not
  undefined, null or the empty string, in their order, each with its key and the string
  conversion of its value URI-encoded; when every value is undefined, null or the empty
  string the result is the empty string. A parameter of the result has an empty value
  exactly when the string conversion of a kept value is empty. That never happens when
  all values are primitive (strings, numbers, booleans), so that then no request URL
  carries an empty-valued parameter.
\<close>

theorem buildQueryString_parameters:
  assumes "Object_entries (if params = Undefined then Obj [] else params) = Inr es"
  shows "\<exists>q. buildQueryString rt params = Inr q
     \<and> query_parameters q =
         map (\<lambda>e. (encodeURIComponent (fst e), encodeURIComponent (ToString rt (snd e))))
           (filter (\<lambda>e. snd e \<noteq> Undefined \<and> snd e \<noteq> Null \<and> snd e \<noteq> Str []) es)
     \<and> ((\<forall>e \<in> set es. snd e = Undefined \<or> snd e = Null \<or> snd e = Str []) \<longrightarrow> q = [])
     \<and> ((\<exists>p \<in> set (query_parameters q). snd p = []) \<longleftrightarrow>
          (\<exists>e \<in> set es. snd e \<noteq> Undefined \<and> snd e \<noteq> Null \<and> snd e \<noteq> Str []
                          \<and> ToString rt (snd e) = []))
     \<and> ((\<forall>x. FractionToString rt x \<noteq> []) \<and> (\<forall>e \<in> set es. is_primitive (snd e))
          \<longrightarrow> (\<forall>p \<in> set (query_parameters q). snd p \<noteq> []))"
proof -
  let ?ks = "filter (\<lambda>e. snd e \<noteq> Undefined \<and> snd e \<noteq> Null \<and> snd e \<noteq> Str []) es"
  let ?q = "join ''&'' (map (query_pair rt) ?ks)"
  have k: "filter kept es = ?ks"
    by (rule filter_cong) (simp_all add: kept_iff)
  have q: "buildQueryString rt params = Inr ?q"
    by (simp add: buildQueryString_def assms k del: Object_entries.simps)
  have ps: "query_parameters ?q =
      map (\<lambda>e. (encodeURIComponent (fst e), encodeURIComponent (ToString rt (snd e)))) ?ks"
    by (rule query_parameters_join)
  have empty: "?q = []" if "\<forall>e \<in> set es. snd e = Undefined \<or> snd e = Null \<or> snd e = Str []"
  proof -
    from that have "?ks = []" by (auto simp: filter_empty_conv)
    then show ?thesis by simp
  qed
  have iff: "(\<exists>p \<in> set (query_parameters ?q). snd p = []) \<longleftrightarrow>
          (\<exists>e \<in> set es. snd e \<noteq> Undefined \<and> snd e \<noteq> Null \<and> snd e \<noteq> Str []
                          \<and> ToString rt (snd e) = [])"
  proof -
    have "(\<exists>p \<in> set (query_parameters ?q). snd p = []) \<longleftrightarrow>
          (\<exists>e \<in> set ?ks. encodeURIComponent (ToString rt (snd e)) = [])"
      unfolding ps set_map by (simp only: bex_simps snd_conv)
    also have "\<dots> \<longleftrightarrow> (\<exists>e \<in> set ?ks. ToString rt (snd e) = [])"
      by (simp only: encodeURIComponent_empty)
    also have "\<dots> \<longleftrightarrow> (\<exists>e \<in> set es. snd e \<noteq> Undefined \<and> snd e \<noteq> Null \<and> snd e \<noteq> Str []
                          \<and> ToString rt (snd e) = [])"
      unfolding set_filter by blast
    finally show ?thesis .
  qed
  have prim: "\<forall>p \<in> set (query_parameters ?q). snd p \<noteq> []"
    if "\<forall>x. FractionToString rt x \<noteq> []" and "\<forall>e \<in> set es. is_primitive (snd e)"
    unfolding ps using that by (auto simp: encodeURIComponent_empty ToString_primitive)
  from q ps empty iff prim show ?thesis by blast
qed

lemma example_query:
  "buildQueryString example_runtime (Obj [(''metric'', Arr [])]) = Inr ''metric=''"
  "request_url example_runtime ''/climate'' (Obj [(''metric'', Arr [])]) = Inr ''/api/v1/climate?metric=''"
  "query_parameters ''metric='' = [(''metric'', [])]"
  by code_simp+

text \<open>
  The claim C10 as stated fails for a value that is kept and whose string conversion is
  empty: for the filters object \<open>{metric: []}\<close> the query string is \<open>metric=\<close>, and
  \<open>getClimateData\<close> requests \<open>/api/v1/climate?metric=\<close>.
\<close>

theorem empty_array_gives_empty_parameter:
  "buildQueryString example_runtime (Obj [(''metric'', Arr [])]) = Inr ''metric=''
   \<and> request_url example_runtime ''/climate'' (Obj [(''metric'', Arr [])]) = Inr ''/api/v1/climate?metric=''
   \<and> query_parameters ''metric='' = [(''metric'', [])]"
  by (simp only: example_query simp_thms)

lemma NumberToString_3: "NumberToString example_runtime (Fin 3) = ''3''"
  by code_simp

lemma example_params_kept:
  "filter (\<lambda>e. snd e \<noteq> Undefined \<and> snd e \<noteq> Null \<and> snd e \<noteq> Str []) example_params =
     [(''location_id'', Num (Fin 3)), (''metric'', Str ''air temp'')]"
  by (simp add: example_params_def)

lemma example_params_encoded:
  "encodeURIComponent ''location_id'' = ''location_id''"
  "encodeURIComponent ''metric'' = ''metric''"
  "encodeURIComponent ''3'' = ''3''"
  "encodeURIComponent ''air temp'' = ''air%20temp''"
  by code_simp+

theorem buildQueryString_parameters_witness:
  "\<exists>q. buildQueryString example_runtime (Obj example_params) = Inr q
     \<and> query_parameters q = [(''location_id'', ''3''), (''metric'', ''air%20temp'')]"
  using buildQueryString_parameters [of "Obj example_params" example_params example_runtime]
proof -
  from buildQueryString_parameters [of "Obj example_params" example_params example_runtime]
  obtain q where q: "buildQueryString example_runtime (Obj example_params) = Inr q"
    and ps: "query_parameters q =
         map (\<lambda>e. (encodeURIComponent (fst e), encodeURIComponent (ToString example_runtime (snd e))))
           (filter (\<lambda>e. snd e \<noteq> Undefined \<and> snd e \<noteq> Null \<and> snd e \<noteq> Str []) example_params)"
    by auto
  from ps have "query_parameters q = [(''location_id'', ''3''), (''metric'', ''air%20temp'')]"
    by (simp add: example_params_kept NumberToString_3 example_params_encoded
        del: NumberToString.simps)
  with q show ?thesis
    by (intro exI [of _ q] conjI)
qed

subsection \<open>The weighted summary\<close>

lemma total_weight_pos:
  assumes "valid_weights w" and "obs \<noteq> []"
  shows "0 < total_weight w obs"
proof -
  have pos: "0 < w g" for g
    using assms(1) by (cases g) (simp_all add: valid_weights_def)
  from assms(2) show ?thesis
  proof (induction obs rule: list_nonempty_induct)
    case (single x)
    then show ?case by (simp add: total_weight_def weight_of_def pos)
  next
    case (cons x xs)
    then show ?case
      using pos [of "obs_quality x"] by (simp add: total_weight_def weight_of_def)
  qed
qed

lemma sum_list_indexed: "sum_list (map f xs) = (\<Sum>i<length xs. f (xs ! i))"
  by (simp add: sum_list_sum_nth atLeast0LessThan)

lemma grade_weights_partition:
  "(\<Sum>g\<leftarrow>all_grades. grade_weight w g obs) = total_weight w obs"
proof (induction obs)
  case Nil
  show ?case by (simp add: all_grades_def grade_weight_def total_weight_def)
next
  case (Cons x xs)
  then show ?case
    by (cases "obs_quality x") (simp_all add: all_grades_def grade_weight_def total_weight_def)
qed

lemma weighted_summary_defined:
  assumes "valid_weights w" and "obs \<noteq> []"
  shows "weighted_summary w u obs =
     Inr \<lparr>min_value = fold min (map obs_value (tl obs)) (obs_value (hd obs)),
          max_value = fold max (map obs_value (tl obs)) (obs_value (hd obs)),
          mean = sum_list (map obs_value obs) / real (length obs),
          weighted_mean =
            sum_list (map (\<lambda>ob. obs_value ob * weight_of w (obs_quality ob)) obs) / total_weight w obs,
          result_unit = u,
          quality_distribution = (\<lambda>g. grade_weight w g obs / total_weight w obs)\<rparr>"
  using total_weight_pos [OF assms] assms(2) by (simp add: weighted_summary_def)

lemma scenario_summary:
  assumes "w excellent = 1" and "w good = 8 / 10" and "w poor = 3 / 10"
  shows "total_weight w scenario = 21 / 10"
    and "sum_list (map (\<lambda>ob. obs_value ob * weight_of w (obs_quality ob)) scenario) = 242 / 10"
    and "fold min (map obs_value (tl scenario)) (obs_value (hd scenario)) = 10"
    and "fold max (map obs_value (tl scenario)) (obs_value (hd scenario)) = 14"
    and "sum_list (map obs_value scenario) / real (length scenario) = 12"
  using assms by (simp_all add: scenario_def total_weight_def weight_of_def)

text \<open>
  Claim C2, as amended. For a valid weight table and every non-empty observation
  sequence the summary is defined and its weighted mean is
  \<open>\<Sum>(value\<^sub>i \<sqdot> weight(quality\<^sub>i)) / \<Sum>(weight(quality\<^sub>i))\<close>. For the scenario of three
  observations (10 good, 12 excellent, 14 poor) under the weights excellent 1.0, good 0.8
  and poor 0.3 the summary has minimum 10, maximum 14, mean 12 and weighted mean
  \<open>242/21\<close>, which is 11.524 to three decimals.
\<close>

theorem weighted_mean_formula:
  assumes "valid_weights w"
  shows "(obs \<noteq> [] \<longrightarrow>
           (\<exists>r. weighted_summary w u obs = Inr r
              \<and> weighted_mean r =
                  (\<Sum>i<length obs. obs_value (obs ! i) * weight_of w (obs_quality (obs ! i)))
                  / (\<Sum>i<length obs. weight_of w (obs_quality (obs ! i)))))
       \<and> (w excellent = 1 \<and> w good = 8 / 10 \<and> w poor = 3 / 10 \<longrightarrow>
           (\<exists>r. weighted_summary w u scenario = Inr r
              \<and> min_value r = 10 \<and> max_value r = 14 \<and> mean r = 12
              \<and> weighted_mean r = 242 / 21
              \<and> \<bar>weighted_mean r - 11524 / 1000\<bar> \<le> 5 / 10000))"
proof (intro conjI impI)
  assume ne: "obs \<noteq> []"
  show "\<exists>r. weighted_summary w u obs = Inr r
              \<and> weighted_mean r =
                  (\<Sum>i<length obs. obs_value (obs ! i) * weight_of w (obs_quality (obs ! i)))
                  / (\<Sum>i<length obs. weight_of w (obs_quality (obs ! i)))"
    by (simp add: weighted_summary_defined [OF assms ne] total_weight_def sum_list_indexed)
next
  assume s: "w excellent = 1 \<and> w good = 8 / 10 \<and> w poor = 3 / 10"
  have ne: "scenario \<noteq> []"
    by (simp add: scenario_def)
  note v = scenario_summary [of w]
  show "\<exists>r. weighted_summary w u scenario = Inr r
              \<and> min_value r = 10 \<and> max_value r = 14 \<and> mean r = 12
              \<and> weighted_mean r = 242 / 21
              \<and> \<bar>weighted_mean r - 11524 / 1000\<bar> \<le> 5 / 10000"
    using s by (simp add: weighted_summary_defined [OF assms ne] v)
qed

lemma scenario_weights_valid: "valid_weights scenario_weights"
  by (simp add: valid_weights_def)

theorem weighted_mean_formula_witness:
  "\<exists>r. weighted_summary scenario_weights ''C'' scenario = Inr r
      \<and> min_value r = 10 \<and> max_value r = 14 \<and> mean r = 12 \<and> weighted_mean r = 242 / 21"
proof -
  have "scenario_weights excellent = 1 \<and> scenario_weights good = 8 / 10 \<and> scenario_weights poor = 3 / 10"
    by simp
  with weighted_mean_formula [OF scenario_weights_valid, of scenario "''C''"]
  obtain r where "weighted_summary scenario_weights ''C'' scenario = Inr r"
    and "min_value r = 10" and "max_value r = 14" and "mean r = 12" and "weighted_mean r = 242 / 21"
    by blast
  then show ?thesis
    by (intro exI [of _ r] conjI)
qed

text \<open>
  The claim C2 as stated gives 11.238 for the weighted mean of the scenario. The formula
  gives \<open>(10 \<sqdot> 0.8 + 12 \<sqdot> 1.0 + 14 \<sqdot> 0.3) / (0.8 + 1.0 + 0.3) = 24.2 / 2.1 = 242/21\<close>, which is
  more than 0.28 away from 11.238.
\<close>

theorem scenario_weighted_mean_is_not_11_238:
  "valid_weights scenario_weights
   \<and> \<not> isl (weighted_summary scenario_weights ''C'' scenario)
   \<and> weighted_mean (projr (weighted_summary scenario_weights ''C'' scenario)) = 242 / 21
   \<and> 28 / 100 < \<bar>weighted_mean (projr (weighted_summary scenario_weights ''C'' scenario)) - 11238 / 1000\<bar>"
proof -
  have ne: "scenario \<noteq> []"
    by (simp add: scenario_def)
  show ?thesis
    by (simp add: scenario_weights_valid weighted_summary_defined [OF scenario_weights_valid ne]
          scenario_summary [of scenario_weights])
qed

text \<open>
  Claim C3. For a valid weight table and every non-empty observation sequence the
  summary is defined, \<open>quality_distribution[g]\<close> is the total weight of the
  observations with grade \<open>g\<close> divided by the total weight of all observations, and
  the fractions of the four grades sum to 1, hence to 1 within the tolerance \<open>10\<^sup>-\<^sup>9\<close>.
\<close>

theorem quality_distribution_sums_to_one:
  assumes "valid_weights w" and "obs \<noteq> []"
  shows "\<exists>r. weighted_summary w u obs = Inr r
     \<and> (\<forall>g. quality_distribution r g = grade_weight w g obs / total_weight w obs)
     \<and> (\<Sum>g\<leftarrow>all_grades. quality_distribution r g) = 1
     \<and> \<bar>(\<Sum>g\<leftarrow>all_grades. quality_distribution r g) - 1\<bar> \<le> 1 / 10 ^ 9"
proof -
  have pos: "0 < total_weight w obs"
    using assms by (rule total_weight_pos)
  have "(\<Sum>g\<leftarrow>all_grades. grade_weight w g obs / total_weight w obs)
      = (\<Sum>g\<leftarrow>all_grades. grade_weight w g obs) / total_weight w obs"
    by (simp add: all_grades_def add_divide_distrib)
  also have "\<dots> = 1"
    using pos by (simp add: grade_weights_partition)
  finally have one: "(\<Sum>g\<leftarrow>all_grades. grade_weight w g obs / total_weight w obs) = 1" .
  show ?thesis
    by (simp add: weighted_summary_defined [OF assms] one)
qed

theorem quality_distribution_sums_to_one_witness:
  "\<exists>r. weighted_summary scenario_weights ''C'' scenario = Inr r
     \<and> map (quality_distribution r) all_grades = [10 / 21, 8 / 21, 0, 1 / 7]
     \<and> (\<Sum>g\<leftarrow>all_grades. quality_distribution r g) = 1"
proof -
  have ne: "scenario \<noteq> []"
    by (simp add: scenario_def)
  from quality_distribution_sums_to_one [OF scenario_weights_valid ne, of "''C''"]
  obtain r where r: "weighted_summary scenario_weights ''C'' scenario = Inr r"
    and d: "\<And>g. quality_distribution r g
              = grade_weight scenario_weights g scenario / total_weight scenario_weights scenario"
    and s: "(\<Sum>g\<leftarrow>all_grades. quality_distribution r g) = 1"
    by blast
  have t: "total_weight scenario_weights scenario = 21 / 10"
    by (rule scenario_summary) simp_all
  have g: "grade_weight scenario_weights excellent scenario = 1"
    "grade_weight scenario_weights good scenario = 8 / 10"
    "grade_weight scenario_weights questionable scenario = 0"
    "grade_weight scenario_weights poor scenario = 3 / 10"
    by (simp_all add: grade_weight_def weight_of_def scenario_def)
  have "map (quality_distribution r) all_grades = [10 / 21, 8 / 21, 0, 1 / 7]"
    by (simp add: d t g all_grades_def)
  with r s show ?thesis
    by (intro exI [of _ r] conjI)
qed

end
